theory Spec2Isabelle
  imports Main "HOL-Library.Word" "HOL-Library.Sublist"
begin

section \<open>Package config: flags and durations\<close>

text \<open>
  A \<^verbatim>\<open>time.Duration\<close> is a signed 64-bit count of nanoseconds; \<open>sint\<close> reads it.
  Go's \<^verbatim>\<open>int\<close> is taken at its 64-bit width, so that \<^verbatim>\<open>time.Duration(*globalTimeout)\<close>
  is the identity and the product with \<^verbatim>\<open>time.Minute\<close> wraps modulo \<open>2 ^ 64\<close>.
\<close>

type_synonym Duration = "64 word"

definition Second :: Duration where
  "Second = 1000000000"

definition Minute :: Duration where
  "Minute = 60 * Second"

record Config =
  URL :: string
  Headless :: bool
  Debug :: bool
  GlobalTimeout :: Duration
  ActionTimeout :: Duration

text \<open>
  The command line as package \<^verbatim>\<open>flag\<close> hands it over: the value given for each flag,
  \<open>None\<close> when the flag is absent.  (Parsing the text of the arguments is the library's.)
\<close>

record flags =
  flag_url :: "string option"
  flag_headless :: "bool option"
  flag_debug :: "bool option"
  flag_timeout :: "64 word option"
  flag_action_timeout :: "64 word option"

definition flag_Var :: "'a \<Rightarrow> 'a option \<Rightarrow> 'a" where
  "flag_Var dflt given = (case given of None \<Rightarrow> dflt | Some v \<Rightarrow> v)"

definition Parse :: "flags \<Rightarrow> Config" where
  "Parse f =
    (let globalTimeout = flag_Var 30 (flag_timeout f);
         actionTimeout = flag_Var 1 (flag_action_timeout f)
     in \<lparr>URL = flag_Var [] (flag_url f),
         Headless = flag_Var False (flag_headless f),
         Debug = flag_Var False (flag_debug f),
         GlobalTimeout = globalTimeout * Minute,
         ActionTimeout = actionTimeout * Minute\<rparr>)"

text \<open>The flag values whose minutes fit a \<^verbatim>\<open>Duration\<close>: \<open>153722867 * 60 * 10^9 < 2^63\<close>.\<close>

definition fits_minutes :: "64 word \<Rightarrow> bool" where
  "fits_minutes v = (- 153722867 \<le> sint v \<and> sint v \<le> 153722867)"


section \<open>Package context: deadlines and cancellation\<close>

datatype ctx_error = Canceled | DeadlineExceeded

text \<open>
  Every context this program runs browser actions under carries a deadline.  Time is an
  integer count of nanoseconds.  \<open>cancelAt\<close> is the instant at which the context is
  cancelled from outside (the browser going away), if that happens at all.
\<close>

record go_context =
  deadline :: int
  cancelAt :: "int option"

definition ctx_end :: "go_context \<Rightarrow> int \<times> ctx_error" where
  "ctx_end c =
    (case cancelAt c of
       None \<Rightarrow> (deadline c, DeadlineExceeded)
     | Some k \<Rightarrow> if k < deadline c then (k, Canceled) else (deadline c, DeadlineExceeded))"

definition ctx_Err :: "go_context \<Rightarrow> int \<Rightarrow> ctx_error option" where
  "ctx_Err c now = (if fst (ctx_end c) \<le> now then Some (snd (ctx_end c)) else None)"

text \<open>
  \<^verbatim>\<open>context.WithTimeout(parent, d)\<close> at instant \<open>now\<close>: the child ends when the parent
  does, or at \<open>now + d\<close> if that is earlier; a cancelled parent cancels the child.
\<close>

definition WithTimeout :: "go_context \<Rightarrow> int \<Rightarrow> Duration \<Rightarrow> go_context" where
  "WithTimeout parent now d =
    (if deadline parent < now + sint d then parent
     else parent\<lparr>deadline := now + sint d\<rparr>)"


section \<open>The page as the scripts see it\<close>

text \<open>
  The DOM enters the program only through the queries of its four scripts, so a page is
  recorded as what those queries return, in document order.  Of a table row the scripts
  read its \<^verbatim>\<open>textContent\<close> and that of its first \<^verbatim>\<open>td\<close>, which \<^verbatim>\<open>querySelector\<close> may not
  find.  Of an element of class \<^verbatim>\<open>rac_name\<close> they read its \<^verbatim>\<open>textContent\<close> and the rows below
  its \<^verbatim>\<open>parentNode\<close>; the harvest takes only the elements inside one of class
  \<^verbatim>\<open>rac_info\<close>.  Of the page they read the texts of the dropdown entries
  (\<^verbatim>\<open>.optionslist li\<close>), the elements of class \<^verbatim>\<open>rac_name\<close>, and whether the box
  \<^verbatim>\<open>currentcheckbox\<close> is there and checked.  The last field, \<open>altered\<close>, is no query: it
  is what the page makes of a detail script whose text the spliced name has turned into
  other code (see \<open>cook\<close> below), an exception or a value; nothing is known about it.
\<close>

datatype json_value = JString string | JNumber int | JNull

type_synonym json_object = "(string \<times> json_value) list"

text \<open>
  What a script hands back.  \<open>JSStringified obj\<close> is the string \<^verbatim>\<open>JSON.stringify(obj)\<close>:
  JSON text is represented by the object it denotes, the serialiser of the page and the
  lexer of \<^verbatim>\<open>encoding/json\<close> being library code inverse to each other on flat objects
  of strings.
\<close>

datatype js_value =
    JSUndefined
  | JSStrings "string list"
  | JSObject json_object
  | JSStringified json_object

record tr_elem =
  tr_textContent :: string
  tr_td :: "string option"

record rac_name_elem =
  rn_textContent :: string
  rn_in_rac_info :: bool
  rn_parentNode :: "tr_elem list option"

record page =
  optionslist_li :: "string list"
  rac_name_elems :: "rac_name_elem list"
  currentcheckbox :: "bool option"
  altered :: "string \<Rightarrow> string + js_value"

text \<open>
  Strings are lists of 8-bit characters, the bytes of their UTF-8 form.  \<^verbatim>\<open>trim()\<close> strips
  white space and line terminators from both ends: U+0009 to U+000D, U+0020, U+00A0,
  U+1680, U+2000 to U+200A, U+2028, U+2029, U+202F, U+205F, U+3000 and U+FEFF, listed here
  by their encodings.
\<close>

definition js_whitespace :: "string list" where
  "js_whitespace =
    [[CHR 0x09], [CHR 0x0A], [CHR 0x0B], [CHR 0x0C], [CHR 0x0D], [CHR 0x20],
     [CHR 0xC2, CHR 0xA0], [CHR 0xE1, CHR 0x9A, CHR 0x80],
     [CHR 0xE2, CHR 0x80, CHR 0x80], [CHR 0xE2, CHR 0x80, CHR 0x81],
     [CHR 0xE2, CHR 0x80, CHR 0x82], [CHR 0xE2, CHR 0x80, CHR 0x83],
     [CHR 0xE2, CHR 0x80, CHR 0x84], [CHR 0xE2, CHR 0x80, CHR 0x85],
     [CHR 0xE2, CHR 0x80, CHR 0x86], [CHR 0xE2, CHR 0x80, CHR 0x87],
     [CHR 0xE2, CHR 0x80, CHR 0x88], [CHR 0xE2, CHR 0x80, CHR 0x89],
     [CHR 0xE2, CHR 0x80, CHR 0x8A], [CHR 0xE2, CHR 0x80, CHR 0xA8],
     [CHR 0xE2, CHR 0x80, CHR 0xA9], [CHR 0xE2, CHR 0x80, CHR 0xAF],
     [CHR 0xE2, CHR 0x81, CHR 0x9F], [CHR 0xE3, CHR 0x80, CHR 0x80],
     [CHR 0xEF, CHR 0xBB, CHR 0xBF]]"

text \<open>\<open>strip seqs s\<close> removes from the front of \<open>s\<close> the sequences of \<open>seqs\<close>, as long as
  one of them stands there.\<close>

function strip :: "string list \<Rightarrow> string \<Rightarrow> string" where
  "strip seqs s =
    (case find (\<lambda>ws. ws \<noteq> [] \<and> prefix ws s) seqs of
       None \<Rightarrow> s
     | Some ws \<Rightarrow> strip seqs (drop (length ws) s))"
  by pat_completeness auto
termination
  by (relation "measure (\<lambda>(seqs, s). length s)") (auto simp: find_Some_iff prefix_def)

declare strip.simps [simp del]

definition trim :: "string \<Rightarrow> string" where
  "trim s = rev (strip (map rev js_whitespace) (rev (strip js_whitespace s)))"

definition options_script :: "page \<Rightarrow> string + js_value" where
  "options_script p =
    Inr (JSStrings (filter (\<lambda>text. text \<noteq> [] \<and> text \<noteq> ''Select'')
                     (map (\<lambda>el. trim el) (optionslist_li p))))"

definition uncheck_script :: "page \<Rightarrow> string + js_value" where
  "uncheck_script p =
    (case currentcheckbox p of
       None \<Rightarrow> Inl ''TypeError: Cannot read properties of null''
     | Some checked \<Rightarrow> Inr JSUndefined)"

definition rac_names_script :: "page \<Rightarrow> string + js_value" where
  "rac_names_script p =
    Inr (JSStrings (map (\<lambda>el. trim (rn_textContent el))
                     (filter rn_in_rac_info (rac_name_elems p))))"

text \<open>
  The detail script splices the name between back quotes at five places: once in a line
  comment, and in four template literals.  What the literal denotes is worked out as
  ECMAScript does for a template without substitutions:
  \<^item> a line terminator in the name (line feed, carriage return, U+2028, U+2029) ends the
    line comment, and the rest of the name is code;
  \<^item> a back quote ends the literal and \<^verbatim>\<open>${\<close> opens a substitution, so what follows is
    code; a backslash at the very end takes the closing back quote into the literal;
  \<^item> after a backslash, \<^verbatim>\<open>b f n r t v\<close> are the control characters, \<^verbatim>\<open>0\<close> not followed by
    a digit is U+0000, \<^verbatim>\<open>xHH\<close> and \<^verbatim>\<open>uHHHH\<close> are the character with that number, any other
    digit and any broken \<^verbatim>\<open>x\<close> or \<^verbatim>\<open>u\<close> is a syntax error, and any other character stands
    for itself.
  Where the text has become other code the result is \<open>Foreign\<close>; so it is for surrogates
  and for \<^verbatim>\<open>\u{...}\<close>, which are not worked out here.  A \<open>Foreign\<close> script is answered by the
  field \<open>altered\<close> of the page.
\<close>

datatype cooked = Cooked string | Uncompilable | Foreign

definition line_terminators :: "string list" where
  "line_terminators =
    [[CHR 0x0A], [CHR 0x0D], [CHR 0xE2, CHR 0x80, CHR 0xA8], [CHR 0xE2, CHR 0x80, CHR 0xA9]]"

fun has_line_terminator :: "string \<Rightarrow> bool" where
  "has_line_terminator [] = False"
| "has_line_terminator (c # cs) =
    (if find (\<lambda>lt. prefix lt (c # cs)) line_terminators = None
     then has_line_terminator cs else True)"

definition hex :: "char \<Rightarrow> nat option" where
  "hex c =
    (let n = (of_char c :: nat) in
     if 48 \<le> n \<and> n \<le> 57 then Some (n - 48)
     else if 65 \<le> n \<and> n \<le> 70 then Some (n - 55)
     else if 97 \<le> n \<and> n \<le> 102 then Some (n - 87)
     else None)"

definition is_digit :: "char \<Rightarrow> bool" where
  "is_digit c = (48 \<le> (of_char c :: nat) \<and> (of_char c :: nat) \<le> 57)"

text \<open>The UTF-8 form of a character below U+10000.\<close>

definition utf8 :: "nat \<Rightarrow> string" where
  "utf8 n =
    (if n < 128 then [char_of n]
     else if n < 2048 then [char_of (192 + n div 64), char_of (128 + n mod 64)]
     else [char_of (224 + n div 4096), char_of (128 + (n div 64) mod 64),
           char_of (128 + n mod 64)])"

definition single_escape :: "char \<Rightarrow> char" where
  "single_escape e =
    (if e = CHR ''b'' then CHR 0x08 else if e = CHR ''f'' then CHR 0x0C
     else if e = CHR ''n'' then CHR 0x0A else if e = CHR ''r'' then CHR 0x0D
     else if e = CHR ''t'' then CHR 0x09 else if e = CHR ''v'' then CHR 0x0B
     else e)"

fun followed :: "string \<Rightarrow> cooked \<Rightarrow> cooked" where
  "followed cs (Cooked r) = Cooked (cs @ r)"
| "followed cs Uncompilable = Uncompilable"
| "followed cs Foreign = Foreign"

fun scan :: "string \<Rightarrow> cooked" where
  "scan [] = Cooked []"
| "scan (c # cs) =
    (if c = CHR 0x60 then Foreign
     else if c = CHR 0x24 \<and> take 1 cs = [CHR 0x7B] then Foreign
     else if c \<noteq> CHR 0x5C then followed [c] (scan cs)
     else
      (case cs of
         [] \<Rightarrow> Foreign
       | e # rest \<Rightarrow>
          (if e = CHR ''x'' then
             (case rest of
                h1 # h2 # after \<Rightarrow>
                  (case (hex h1, hex h2) of
                     (Some a, Some b) \<Rightarrow> followed (utf8 (16 * a + b)) (scan after)
                   | _ \<Rightarrow> Uncompilable)
              | _ \<Rightarrow> Uncompilable)
           else if e = CHR ''u'' then
             (if take 1 rest = [CHR 0x7B] then Foreign
              else
               (case rest of
                  h1 # h2 # h3 # h4 # after \<Rightarrow>
                    (case (hex h1, hex h2, hex h3, hex h4) of
                       (Some a, Some b, Some c, Some d) \<Rightarrow>
                         (let n = ((a * 16 + b) * 16 + c) * 16 + d in
                          if 55296 \<le> n \<and> n \<le> 57343 then Foreign
                          else followed (utf8 n) (scan after))
                     | _ \<Rightarrow> Uncompilable)
                | _ \<Rightarrow> Uncompilable))
           else if is_digit e then
             (if e = CHR ''0'' \<and> \<not> (case rest of [] \<Rightarrow> False | d # after \<Rightarrow> is_digit d)
              then followed [CHR 0x00] (scan rest)
              else Uncompilable)
           else followed [single_escape e] (scan rest))))"

text \<open>
  The script travels to the browser as JSON text, and a Go string that is not well-formed
  UTF-8 does not arrive as it was (the encoder puts U+FFFD for its broken bytes); such a
  name is \<open>Foreign\<close> as well.  Well-formed are the byte sequences of the Unicode
  standard, table 3-7.
\<close>

definition continuation :: "char \<Rightarrow> bool" where
  "continuation c = (128 \<le> (of_char c :: nat) \<and> (of_char c :: nat) \<le> 191)"

fun well_formed :: "string \<Rightarrow> bool" where
  "well_formed [] = True"
| "well_formed (c # cs) =
    (let b = (of_char c :: nat) in
     if b < 128 then well_formed cs
     else if 194 \<le> b \<and> b \<le> 223 then
       (case cs of
          c1 # after \<Rightarrow> continuation c1 \<and> well_formed after
        | _ \<Rightarrow> False)
     else if 224 \<le> b \<and> b \<le> 239 then
       (case cs of
          c1 # c2 # after \<Rightarrow>
            continuation c1 \<and> continuation c2
            \<and> (if b = 224 then 160 \<le> (of_char c1 :: nat) else True)
            \<and> (if b = 237 then (of_char c1 :: nat) \<le> 159 else True)
            \<and> well_formed after
        | _ \<Rightarrow> False)
     else if 240 \<le> b \<and> b \<le> 244 then
       (case cs of
          c1 # c2 # c3 # after \<Rightarrow>
            continuation c1 \<and> continuation c2 \<and> continuation c3
            \<and> (if b = 240 then 144 \<le> (of_char c1 :: nat) else True)
            \<and> (if b = 244 then (of_char c1 :: nat) \<le> 143 else True)
            \<and> well_formed after
        | _ \<Rightarrow> False)
     else False)"

definition cook :: "string \<Rightarrow> cooked" where
  "cook name =
    (if has_line_terminator name \<or> \<not> well_formed name then Foreign else scan name)"

fun findDiv :: "string \<Rightarrow> rac_name_elem list \<Rightarrow> rac_name_elem option \<Rightarrow> rac_name_elem option" where
  "findDiv name [] foundDiv = foundDiv"
| "findDiv name (currDiv # racNameDivs) foundDiv =
    findDiv name racNameDivs
      (if trim (rn_textContent currDiv) = name then Some currDiv else foundDiv)"

fun getSpec :: "tr_elem list \<Rightarrow> string \<Rightarrow> string + string" where
  "getSpec [] label = Inr []"
| "getSpec (currTr # trList) label =
    (if prefix label (trim (tr_textContent currTr))
     then (case tr_td currTr of
             None \<Rightarrow> Inl ''TypeError: Cannot read properties of null''
           | Some td \<Rightarrow> Inr (trim td))
     else getSpec trList label)"

text \<open>The keys of the object literal with the labels they are read from, in the order
  the script evaluates them.\<close>

definition spec_labels :: "(string \<times> string) list" where
  "spec_labels =
    [(''headSize'', ''Head Size:''), (''length'', ''Length:''), (''balance'', ''Balance:''),
     (''swingWeight'', ''Swing Weight:''), (''beamWidth'', ''Beam Width:''),
     (''tipOrShaft'', ''Tip/Shaft:''), (''composition'', ''Composition:''),
     (''powerLevel'', ''Power Level:''), (''stiffness'', ''Stiffness:''),
     (''stringPattern'', ''String Pattern:''), (''mainSkip'', ''Main Skip:''),
     (''stringTension'', ''String Tension:'')]"

fun getSpecs :: "tr_elem list \<Rightarrow> (string \<times> string) list \<Rightarrow> string + json_object" where
  "getSpecs parent [] = Inr []"
| "getSpecs parent ((key, label) # rest) =
    (case getSpec parent label of
       Inl exc \<Rightarrow> Inl exc
     | Inr v \<Rightarrow>
        (case getSpecs parent rest of
           Inl exc \<Rightarrow> Inl exc
         | Inr kvs \<Rightarrow> Inr ((key, JString v) # kvs)))"

definition specs_script :: "string \<Rightarrow> page \<Rightarrow> string + js_value" where
  "specs_script name p =
    (case cook name of
       Foreign \<Rightarrow> altered p name
     | Uncompilable \<Rightarrow> Inl ''SyntaxError''
     | Cooked literal \<Rightarrow>
        (case findDiv literal (rac_name_elems p) None of
           None \<Rightarrow>
             Inr (JSObject [(''name'', JString literal),
                            (''error'', JString ''Couldn't find racDiv'')])
         | Some foundDiv \<Rightarrow>
            (case rn_parentNode foundDiv of
               None \<Rightarrow>
                 Inr (JSObject [(''name'', JString literal),
                                (''error'', JString ''Couldn't find parent'')])
             | Some parent \<Rightarrow>
                (case getSpecs parent spec_labels of
                   Inl exc \<Rightarrow> Inl exc
                 | Inr kvs \<Rightarrow>
                     Inr (JSStringified
                            ((''name'', JString literal) # (''error'', JString []) # kvs))))))"

datatype script = OptionsScript | UncheckScript | RacNamesScript | SpecsScript string

fun run_script :: "script \<Rightarrow> page \<Rightarrow> string + js_value" where
  "run_script OptionsScript p = options_script p"
| "run_script UncheckScript p = uncheck_script p"
| "run_script RacNamesScript p = rac_names_script p"
| "run_script (SpecsScript name) p = specs_script name p"


section \<open>Package chromedp: running actions in the browser\<close>

datatype error =
    ContextError ctx_error
  | BrowserError string
  | ScriptException string
  | UnmarshalTypeError
  | ErrJSUndefined
  | SyntaxError
  | ParentContextCanceled ctx_error
  | CanceledDuringExecution
  | TimedOutAfter Duration
  | InitialContextError ctx_error
  | NavigationFailed error
  | PageLoadVerificationFailed error
  | UncheckFailed error
  | OptionsError error

text \<open>\<^verbatim>\<open>errors.Is\<close>: the wrappers built with \<^verbatim>\<open>%w\<close> are looked through, the others are not.\<close>

fun errors_Is :: "error \<Rightarrow> ctx_error \<Rightarrow> bool" where
  "errors_Is (ContextError e) t = (e = t)"
| "errors_Is (ParentContextCanceled e) t = (e = t)"
| "errors_Is (InitialContextError e) t = (e = t)"
| "errors_Is (NavigationFailed e) t = errors_Is e t"
| "errors_Is (PageLoadVerificationFailed e) t = errors_Is e t"
| "errors_Is (UncheckFailed e) t = errors_Is e t"
| "errors_Is (OptionsError e) t = errors_Is e t"
| "errors_Is (BrowserError m) t = False"
| "errors_Is (ScriptException m) t = False"
| "errors_Is UnmarshalTypeError t = False"
| "errors_Is ErrJSUndefined t = False"
| "errors_Is SyntaxError t = False"
| "errors_Is CanceledDuringExecution t = False"
| "errors_Is (TimedOutAfter d) t = False"

text \<open>The errors \<^verbatim>\<open>chromedp.Run\<close> itself reports, as opposed to the ones this program builds.\<close>

fun raw_error :: "error \<Rightarrow> bool" where
  "raw_error (ContextError e) = True"
| "raw_error (BrowserError m) = True"
| "raw_error (ScriptException m) = True"
| "raw_error UnmarshalTypeError = True"
| "raw_error ErrJSUndefined = True"
| "raw_error e = False"

text \<open>
  The three kinds of failure the specification speaks of, and the kind each error of
  \<^verbatim>\<open>runWithTimeout\<close> falls under by its message: ``parent context canceled'' and ``action
  context canceled during execution'' tell of a cancelled session, ``action timed out
  after'' of a timeout, and any other error is passed on as it came.
\<close>

datatype failure_class = SessionCancelled | ActionTimedOut | ActionFailed

fun classify :: "error \<Rightarrow> failure_class" where
  "classify (ParentContextCanceled e) = SessionCancelled"
| "classify CanceledDuringExecution = SessionCancelled"
| "classify (TimedOutAfter d) = ActionTimedOut"
| "classify e = ActionFailed"

datatype query_by = ByQuery | BySearch | ByID

text \<open>Where \<^verbatim>\<open>Evaluate\<close> puts the result: \<^verbatim>\<open>nil\<close>, a \<^verbatim>\<open>*[]string\<close> or a \<^verbatim>\<open>*string\<close>.\<close>

datatype target = Discard | IntoStrings | IntoString

datatype action =
    StartBrowser
  | ActionFunc_log
  | Navigate string
  | Sleep Duration
  | Click string query_by
  | WaitReady string query_by
  | WaitVisible string query_by
  | Evaluate script target

text \<open>
  The values \<^verbatim>\<open>Evaluate\<close> writes into the variables of the caller.  The result of the
  script comes back by value, as JSON, and is unmarshalled into the target: a string fits
  a \<^verbatim>\<open>*string\<close>, an array of strings a \<^verbatim>\<open>*[]string\<close>, and an object fits neither of them.
\<close>

datatype go_value = GoStrings "string list" | GoJSON json_object

fun unmarshal :: "target \<Rightarrow> js_value \<Rightarrow> error + go_value list" where
  "unmarshal Discard v = Inr []"
| "unmarshal IntoStrings (JSStrings xs) = Inr [GoStrings xs]"
| "unmarshal IntoStrings JSUndefined = Inl ErrJSUndefined"
| "unmarshal IntoStrings (JSObject obj) = Inl UnmarshalTypeError"
| "unmarshal IntoStrings (JSStringified obj) = Inl UnmarshalTypeError"
| "unmarshal IntoString (JSStringified obj) = Inr [GoJSON obj]"
| "unmarshal IntoString JSUndefined = Inl ErrJSUndefined"
| "unmarshal IntoString (JSObject obj) = Inl UnmarshalTypeError"
| "unmarshal IntoString (JSStrings xs) = Inl UnmarshalTypeError"

text \<open>
  The browser is the environment.  For each action it is asked to carry out, the next
  entry of \<open>feed\<close> says how that goes: it completes after some time (on the page given,
  which a script is evaluated on), it fails after some time with a message, or it never
  completes by itself.  An exhausted feed is a browser that no longer answers.
  \<open>released\<close> lists the cancel functions called so far.
\<close>

datatype response = Completes nat page | Fails nat string | Hangs

datatype ctx_name = TimeoutCtx | BrowserCtx | AllocCtx

record world =
  clock :: int
  feed :: "response list"
  browserGone :: "int option"
  released :: "ctx_name list"

definition within :: "go_context \<Rightarrow> world \<Rightarrow> int \<Rightarrow> bool" where
  "within c w dur = (clock w + dur < fst (ctx_end c))"

definition cut_off :: "go_context \<Rightarrow> world \<Rightarrow> (error + go_value list) \<times> world" where
  "cut_off c w = (Inl (ContextError (snd (ctx_end c))), w\<lparr>clock := fst (ctx_end c)\<rparr>)"

text \<open>Actions that do not need the browser, with the time they take.\<close>

fun local_action :: "action \<Rightarrow> int option" where
  "local_action ActionFunc_log = Some 0"
| "local_action (Sleep d) = Some (max 0 (sint d))"
| "local_action a = None"

fun effect :: "action \<Rightarrow> page \<Rightarrow> error + go_value list" where
  "effect (Evaluate sc tgt) p =
    (case run_script sc p of
       Inl exc \<Rightarrow> Inl (ScriptException exc)
     | Inr v \<Rightarrow> unmarshal tgt v)"
| "effect a p = Inr []"

definition perform :: "go_context \<Rightarrow> action \<Rightarrow> world \<Rightarrow> (error + go_value list) \<times> world" where
  "perform c a w =
    (case ctx_Err c (clock w) of
       Some e \<Rightarrow> (Inl (ContextError e), w)
     | None \<Rightarrow>
        (case local_action a of
           Some dur \<Rightarrow>
             if within c w dur then (Inr [], w\<lparr>clock := clock w + dur\<rparr>) else cut_off c w
         | None \<Rightarrow>
            (case feed w of
               [] \<Rightarrow> cut_off c w
             | r # rs \<Rightarrow>
                (case r of
                   Hangs \<Rightarrow> cut_off c (w\<lparr>feed := rs\<rparr>)
                 | Fails dur msg \<Rightarrow>
                     if within c w (int dur)
                     then (Inl (BrowserError msg), w\<lparr>feed := rs, clock := clock w + int dur\<rparr>)
                     else cut_off c (w\<lparr>feed := rs\<rparr>)
                 | Completes dur p \<Rightarrow>
                     if within c w (int dur)
                     then (effect a p, w\<lparr>feed := rs, clock := clock w + int dur\<rparr>)
                     else cut_off c (w\<lparr>feed := rs\<rparr>)))))"

text \<open>\<^verbatim>\<open>chromedp.Run(ctx, actions...)\<close>: the actions in order, up to the first error.\<close>

fun chromedp_Run :: "go_context \<Rightarrow> action list \<Rightarrow> world \<Rightarrow> (error + go_value list) \<times> world" where
  "chromedp_Run c [] w = (Inr [], w)"
| "chromedp_Run c (a # as) w =
    (case perform c a w of
       (Inl err, w1) \<Rightarrow> (Inl err, w1)
     | (Inr vs, w1) \<Rightarrow>
        (case chromedp_Run c as w1 of
           (Inl err, w2) \<Rightarrow> (Inl err, w2)
         | (Inr vs', w2) \<Rightarrow> (Inr (vs @ vs'), w2)))"


section \<open>Package scraper\<close>

record Scraper =
  ctx :: go_context
  actionTimeout :: Duration
  debug :: bool

record RacquetSpecs =
  Name :: string
  Error :: string
  HeadSize :: string
  Length :: string
  Balance :: string
  SwingWeight :: string
  BeamWidth :: string
  TipOrShaft :: string
  Composition :: string
  PowerLevel :: string
  Stiffness :: string
  StringPattern :: string
  MainSkip :: string
  StringTension :: string

definition New :: "go_context \<Rightarrow> Config \<Rightarrow> Scraper" where
  "New c cfg = \<lparr>ctx = c, actionTimeout = ActionTimeout cfg, debug = Debug cfg\<rparr>"

definition runWithTimeout :: "Scraper \<Rightarrow> action list \<Rightarrow> world \<Rightarrow> (error + go_value list) \<times> world" where
  "runWithTimeout s actions w =
    (case ctx_Err (ctx s) (clock w) of
       Some e \<Rightarrow> (Inl (ParentContextCanceled e), w)
     | None \<Rightarrow>
        (let timeoutCtx = WithTimeout (ctx s) (clock w) (actionTimeout s) in
         case chromedp_Run timeoutCtx actions w of
           (Inl err, w1) \<Rightarrow>
             (if errors_Is err Canceled then Inl CanceledDuringExecution
              else if errors_Is err DeadlineExceeded then Inl (TimedOutAfter (actionTimeout s))
              else Inl err, w1)
         | (Inr vs, w1) \<Rightarrow> (Inr vs, w1)))"


text \<open>
  \<^verbatim>\<open>json.Unmarshal\<close> into a \<^verbatim>\<open>RacquetSpecs\<close>: the struct has no tags, so a key names the
  field whose Go name it equals up to the case of its letters; other keys are skipped, and
  a number where a string is expected is a type error (\<open>JNumber\<close> stands for every value
  that is neither a string nor \<^verbatim>\<open>null\<close>).  The field names are ASCII, so folding the
  letters A to Z, and the two characters outside ASCII that fold to one of them (U+017F
  to \<open>s\<close> and U+212A to \<open>k\<close>), is all of Unicode's simple case folding that matters.
\<close>

definition lower :: "char \<Rightarrow> char" where
  "lower c =
    (if (65::nat) \<le> of_char c \<and> of_char c \<le> (90::nat)
     then char_of (of_char c + (32::nat)) else c)"

fun simple_fold :: "string \<Rightarrow> string" where
  "simple_fold (a # b # c # cs) =
    (if [a, b, c] = [CHR 0xE2, CHR 0x84, CHR 0xAA] then CHR ''k'' # simple_fold cs
     else if [a, b] = [CHR 0xC5, CHR 0xBF] then CHR ''s'' # simple_fold (c # cs)
     else lower a # simple_fold (b # c # cs))"
| "simple_fold [a, b] =
    (if [a, b] = [CHR 0xC5, CHR 0xBF] then ''s'' else [lower a, lower b])"
| "simple_fold [a] = [lower a]"
| "simple_fold [] = []"

definition EqualFold :: "string \<Rightarrow> string \<Rightarrow> bool" where
  "EqualFold a b = (simple_fold a = simple_fold b)"

definition field_update :: "string \<Rightarrow> (string \<Rightarrow> RacquetSpecs \<Rightarrow> RacquetSpecs) option" where
  "field_update key =
    (if EqualFold key ''Name'' then Some (\<lambda>v r. r\<lparr>Name := v\<rparr>)
     else if EqualFold key ''Error'' then Some (\<lambda>v r. r\<lparr>Error := v\<rparr>)
     else if EqualFold key ''HeadSize'' then Some (\<lambda>v r. r\<lparr>HeadSize := v\<rparr>)
     else if EqualFold key ''Length'' then Some (\<lambda>v r. r\<lparr>Length := v\<rparr>)
     else if EqualFold key ''Balance'' then Some (\<lambda>v r. r\<lparr>Balance := v\<rparr>)
     else if EqualFold key ''SwingWeight'' then Some (\<lambda>v r. r\<lparr>SwingWeight := v\<rparr>)
     else if EqualFold key ''BeamWidth'' then Some (\<lambda>v r. r\<lparr>BeamWidth := v\<rparr>)
     else if EqualFold key ''TipOrShaft'' then Some (\<lambda>v r. r\<lparr>TipOrShaft := v\<rparr>)
     else if EqualFold key ''Composition'' then Some (\<lambda>v r. r\<lparr>Composition := v\<rparr>)
     else if EqualFold key ''PowerLevel'' then Some (\<lambda>v r. r\<lparr>PowerLevel := v\<rparr>)
     else if EqualFold key ''Stiffness'' then Some (\<lambda>v r. r\<lparr>Stiffness := v\<rparr>)
     else if EqualFold key ''StringPattern'' then Some (\<lambda>v r. r\<lparr>StringPattern := v\<rparr>)
     else if EqualFold key ''MainSkip'' then Some (\<lambda>v r. r\<lparr>MainSkip := v\<rparr>)
     else if EqualFold key ''StringTension'' then Some (\<lambda>v r. r\<lparr>StringTension := v\<rparr>)
     else None)"

fun decode :: "json_object \<Rightarrow> RacquetSpecs \<Rightarrow> error + RacquetSpecs" where
  "decode [] r = Inr r"
| "decode ((key, v) # kvs) r =
    (case field_update key of
       None \<Rightarrow> decode kvs r
     | Some upd \<Rightarrow>
        (case v of
           JString str \<Rightarrow> decode kvs (upd str r)
         | JNull \<Rightarrow> decode kvs r
         | JNumber n \<Rightarrow> Inl UnmarshalTypeError))"

text \<open>\<^verbatim>\<open>var racquetInfo RacquetSpecs\<close>: every field the empty string.\<close>

definition zero_RacquetSpecs :: RacquetSpecs where
  "zero_RacquetSpecs =
    \<lparr>Name = [], Error = [], HeadSize = [], Length = [], Balance = [], SwingWeight = [],
     BeamWidth = [], TipOrShaft = [], Composition = [], PowerLevel = [], Stiffness = [],
     StringPattern = [], MainSkip = [], StringTension = []\<rparr>"

text \<open>The string variable after the run holds what \<^verbatim>\<open>Evaluate\<close> wrote into it; left
  empty it is no JSON text.\<close>

fun json_Unmarshal :: "go_value list \<Rightarrow> error + RacquetSpecs" where
  "json_Unmarshal [GoJSON obj] = decode obj zero_RacquetSpecs"
| "json_Unmarshal vals = Inl SyntaxError"

text \<open>The slice variable after the run: what \<^verbatim>\<open>Evaluate\<close> wrote into it, else \<^verbatim>\<open>nil\<close>.\<close>

fun strings_of :: "go_value list \<Rightarrow> string list" where
  "strings_of [GoStrings xs] = xs"
| "strings_of vals = []"

fun getRacquetInfo_loop :: "Scraper \<Rightarrow> string list \<Rightarrow> RacquetSpecs list \<Rightarrow> world \<Rightarrow> RacquetSpecs list \<times> world" where
  "getRacquetInfo_loop s [] specs w = (specs, w)"
| "getRacquetInfo_loop s (name # racNames) specs w =
    (case runWithTimeout s [Evaluate (SpecsScript name) IntoString] w of
       (Inl err, w1) \<Rightarrow> getRacquetInfo_loop s racNames specs w1
     | (Inr stringifySpecs, w1) \<Rightarrow>
        (case json_Unmarshal stringifySpecs of
           Inl err \<Rightarrow> getRacquetInfo_loop s racNames specs w1
         | Inr racquetInfo \<Rightarrow> getRacquetInfo_loop s racNames (specs @ [racquetInfo]) w1))"

definition getRacquetInfo :: "Scraper \<Rightarrow> string list \<Rightarrow> world \<Rightarrow> (RacquetSpecs list \<times> error option) \<times> world" where
  "getRacquetInfo s racNames w =
    (case getRacquetInfo_loop s racNames [] w of (specs, w1) \<Rightarrow> ((specs, None), w1))"

definition select_actions :: "string \<Rightarrow> action list" where
  "select_actions opt =
    [Click (''//li[contains(text(), '' @ [CHR 0x22] @ opt @ [CHR 0x22] @ '')]'') BySearch,
     Sleep (1 * Second),
     Click ''#search_button'' ByID,
     Sleep (2 * Second)]"

definition harvest_actions :: "action list" where
  "harvest_actions = [Evaluate RacNamesScript IntoStrings]"

definition reopen_actions :: "action list" where
  "reopen_actions = [Click ''.drop_arrow'' ByQuery, Sleep (1 * Second)]"

text \<open>
  The loop of \<^verbatim>\<open>processOptions\<close>.  \<open>specs\<close> is the slice declared at the top of the body;
  the \<^verbatim>\<open>specs, err := s.getRacquetInfo(racNames)\<close> inside the \<^verbatim>\<open>if\<close> block declares two
  new variables of that block (\<open>inner_specs\<close>, \<open>err\<close>), and the \<^verbatim>\<open>append\<close> after the block
  reads the outer one.
\<close>

fun processOptions_loop :: "Scraper \<Rightarrow> string list \<Rightarrow> RacquetSpecs list \<Rightarrow> world \<Rightarrow> RacquetSpecs list \<times> world" where
  "processOptions_loop s [] results w = (results, w)"
| "processOptions_loop s (opt # options) results w =
    (let specs = [] in
     case runWithTimeout s (select_actions opt) w of
       (Inl err, w1) \<Rightarrow> processOptions_loop s options results w1
     | (Inr none, w1) \<Rightarrow>
        (case runWithTimeout s harvest_actions w1 of
           (Inl err, w2) \<Rightarrow> processOptions_loop s options results w2
         | (Inr vals, w2) \<Rightarrow>
            (let racNames = strings_of vals in
             case (if length racNames > 0
                   then (case getRacquetInfo s racNames w2 of
                           ((inner_specs, err), w3) \<Rightarrow> (err \<noteq> None, w3))
                   else (False, w2)) of
               (True, w3) \<Rightarrow> processOptions_loop s options results w3
             | (False, w3) \<Rightarrow>
                (case runWithTimeout s reopen_actions w3 of
                   (reopened, w4) \<Rightarrow> processOptions_loop s options (results @ specs) w4))))"

definition processOptions :: "Scraper \<Rightarrow> string list \<Rightarrow> world \<Rightarrow> (RacquetSpecs list \<times> error option) \<times> world" where
  "processOptions s options w =
    (case processOptions_loop s options [] w of (results, w1) \<Rightarrow> ((results, None), w1))"

definition navigation_actions :: "string \<Rightarrow> action list" where
  "navigation_actions url = [ActionFunc_log, Navigate url, Sleep (5 * Second)]"

definition page_load_actions :: "action list" where
  "page_load_actions = [ActionFunc_log, WaitReady ''body'' ByQuery]"

definition uncheck_actions :: "action list" where
  "uncheck_actions =
    [WaitVisible ''#currentcheckbox'' ByID, Evaluate UncheckScript Discard, Sleep (1 * Second)]"

definition setupPage :: "Scraper \<Rightarrow> string \<Rightarrow> world \<Rightarrow> error option \<times> world" where
  "setupPage s url w =
    (let navCtx = WithTimeout (ctx s) (clock w) (30 * Second) in
     case chromedp_Run navCtx (navigation_actions url) w of
       (Inl err, w1) \<Rightarrow> (Some (NavigationFailed err), w1)
     | (Inr none, w1) \<Rightarrow>
        (let loadCtx = WithTimeout (ctx s) (clock w1) (30 * Second) in
         case chromedp_Run loadCtx page_load_actions w1 of
           (Inl err, w2) \<Rightarrow> (Some (PageLoadVerificationFailed err), w2)
         | (Inr none, w2) \<Rightarrow>
            (case runWithTimeout s uncheck_actions w2 of
               (Inl err, w3) \<Rightarrow> (Some (UncheckFailed err), w3)
             | (Inr none, w3) \<Rightarrow> (None, w3))))"

definition options_actions :: "action list" where
  "options_actions =
    [Click ''.drop_arrow'' ByQuery, Sleep (1 * Second), Evaluate OptionsScript IntoStrings]"

definition GetOptions :: "Scraper \<Rightarrow> string \<Rightarrow> world \<Rightarrow> (RacquetSpecs list \<times> error option) \<times> world" where
  "GetOptions s url w =
    (case ctx_Err (ctx s) (clock w) of
       Some err \<Rightarrow> (([], Some (InitialContextError err)), w)
     | None \<Rightarrow>
        (case setupPage s url w of
           (Some err, w1) \<Rightarrow> (([], Some err), w1)
         | (None, w1) \<Rightarrow>
            (case runWithTimeout s options_actions w1 of
               (Inl err, w2) \<Rightarrow> (([], Some (OptionsError err)), w2)
             | (Inr options, w2) \<Rightarrow> processOptions s (strings_of options) w2)))"


section \<open>Package browser and the main program\<close>

text \<open>The two functions \<^verbatim>\<open>NewChrome\<close> can return as its cancel function.\<close>

datatype CancelFunc = cancelFunc | no_op

fun call :: "CancelFunc \<Rightarrow> world \<Rightarrow> world" where
  "call cancelFunc w = w\<lparr>released := released w @ [TimeoutCtx, BrowserCtx, AllocCtx]\<rparr>"
| "call no_op w = w"

text \<open>
  The browser context has no deadline of its own and ends when the browser goes away;
  \<open>timeoutCtx\<close> adds the global timeout to it.  The first \<^verbatim>\<open>chromedp.Run\<close> on a fresh
  context starts the browser before it runs its actions.
\<close>

definition NewChrome :: "Config \<Rightarrow> world \<Rightarrow> (go_context option \<times> CancelFunc) \<times> world" where
  "NewChrome cfg w =
    (let timeoutCtx = \<lparr>deadline = clock w + sint (GlobalTimeout cfg), cancelAt = browserGone w\<rparr> in
     case chromedp_Run timeoutCtx [StartBrowser, ActionFunc_log] w of
       (Inl err, w1) \<Rightarrow> ((None, no_op), call cancelFunc w1)
     | (Inr none, w1) \<Rightarrow> ((Some timeoutCtx, cancelFunc), w1))"

text \<open>
  \<^verbatim>\<open>main\<close>, with the exit status of the process.  \<^verbatim>\<open>log.Fatal\<close> exits with status 1 at
  once; the deferred cleanup runs only on the ordinary return.
\<close>

definition main :: "flags \<Rightarrow> world \<Rightarrow> nat \<times> world" where
  "main f w =
    (let cfg = Parse f in
     case NewChrome cfg w of
       ((None, cancel), w1) \<Rightarrow> (1, w1)
     | ((Some c, cancel), w1) \<Rightarrow>
        (let scraper = New c cfg in
         case GetOptions scraper (URL cfg) w1 of
           ((records, Some err), w2) \<Rightarrow> (1, w2)
         | ((records, None), w2) \<Rightarrow> (0, call cancel w2)))"


section \<open>Notions used in the statements\<close>

text \<open>
  The label each specification field of a record is read from: the script stores the
  value found for a label under a key, and the key names the field up to the case of its
  letters.
\<close>

definition labelled_fields :: "(string \<times> (RacquetSpecs \<Rightarrow> string)) list" where
  "labelled_fields =
    [(''Head Size:'', HeadSize), (''Length:'', Length), (''Balance:'', Balance),
     (''Swing Weight:'', SwingWeight), (''Beam Width:'', BeamWidth),
     (''Tip/Shaft:'', TipOrShaft), (''Composition:'', Composition),
     (''Power Level:'', PowerLevel), (''Stiffness:'', Stiffness),
     (''String Pattern:'', StringPattern), (''Main Skip:'', MainSkip),
     (''String Tension:'', StringTension)]"

text \<open>
  \<open>read_from literal p r\<close>: on page \<open>p\<close> the string has a matching element with a parent,
  and \<open>r\<close> carries the string as its name, no error, and for each label what \<open>getSpec\<close>
  reads there.
\<close>

definition read_from :: "string \<Rightarrow> page \<Rightarrow> RacquetSpecs \<Rightarrow> bool" where
  "read_from literal p r =
    (case findDiv literal (rac_name_elems p) None of
       None \<Rightarrow> False
     | Some el \<Rightarrow>
        (case rn_parentNode el of
           None \<Rightarrow> False
         | Some parent \<Rightarrow>
             Name r = literal \<and> Error r = []
             \<and> list_all (\<lambda>(label, fld). getSpec parent label = Inr (fld r)) labelled_fields))"



section \<open>Example sessions\<close>

text \<open>
  A page on which option \<open>A\<close> lists one racquet, \<open>X\<close>, whose panel has the single row
  \<^verbatim>\<open>Head Size: 100\<close>; the record that belongs to \<open>X\<close>; a page whose dropdown has a
  placeholder, a blank and an empty entry besides \<open>A\<close> and \<open>B\<close>; the page of \<open>X\<close> with
  the row \<^verbatim>\<open>Head Size: 100\<close> in a header cell, so that the row has no \<^verbatim>\<open>td\<close>; a page with
  nothing on it; a page with two racquets, one named \<^verbatim>\<open>a\x41\<close> with an empty panel and one
  named \<open>aA\<close> with a head size, the record of the second, and the first name with its
  backslash doubled, which is how a script has to write it; a session with the default
  timeouts (thirty minutes for the run, one minute for an action); a session of 100 ns
  with 60 ns for an action; a session that is cancelled at 30 ns; a browser at time 0
  with the given answers ahead.
\<close>

definition page_X :: page where
  "page_X =
    \<lparr>optionslist_li = [''Select'', '' A '', ''B''],
     rac_name_elems =
       [\<lparr>rn_textContent = ''X'', rn_in_rac_info = True,
         rn_parentNode = Some [\<lparr>tr_textContent = ''Head Size: 100'', tr_td = Some ''100''\<rparr>]\<rparr>],
     currentcheckbox = Some True,
     altered = (\<lambda>name. Inl ''SyntaxError'')\<rparr>"

definition record_X :: RacquetSpecs where
  "record_X =
    \<lparr>Name = ''X'', Error = [], HeadSize = ''100'', Length = [], Balance = [], SwingWeight = [],
     BeamWidth = [], TipOrShaft = [], Composition = [], PowerLevel = [], Stiffness = [],
     StringPattern = [], MainSkip = [], StringTension = []\<rparr>"

definition page_menu :: page where
  "page_menu =
    \<lparr>optionslist_li = [''Select'', '' A '', ''  '', [], ''B''], rac_name_elems = [],
     currentcheckbox = Some True, altered = (\<lambda>name. Inl ''SyntaxError'')\<rparr>"


definition page_empty :: page where
  "page_empty =
    \<lparr>optionslist_li = [], rac_name_elems = [], currentcheckbox = Some False,
     altered = (\<lambda>name. Inl ''SyntaxError'')\<rparr>"





definition example_scraper :: Scraper where
  "example_scraper =
    \<lparr>ctx = \<lparr>deadline = 1800000000000, cancelAt = None\<rparr>, actionTimeout = Minute, debug = False\<rparr>"

definition browser :: "response list \<Rightarrow> world" where
  "browser rs = \<lparr>clock = 0, feed = rs, browserGone = None, released = []\<rparr>"

definition short_session :: Scraper where
  "short_session = \<lparr>ctx = \<lparr>deadline = 100, cancelAt = None\<rparr>, actionTimeout = 60, debug = False\<rparr>"

definition cancelled_session :: Scraper where
  "cancelled_session =
    \<lparr>ctx = \<lparr>deadline = 1800000000000, cancelAt = Some 30\<rparr>, actionTimeout = Minute, debug = False\<rparr>"

definition no_flags :: flags where
  "no_flags = \<lparr>flag_url = None, flag_headless = None, flag_debug = None,
                flag_timeout = None, flag_action_timeout = None\<rparr>"


section \<open>Properties of the configuration\<close>

lemma sint_Minute: "sint Minute = 60000000000"
  by (simp add: Minute_def Second_def)

lemma sint_times_Minute:
  assumes "fits_minutes v"
  shows "sint (v * Minute) = sint v * sint Minute"
proof -
  from assms have lo: "- 153722867 \<le> sint v" and hi: "sint v \<le> 153722867"
    by (simp_all add: fits_minutes_def)
  have "sint (v * Minute) = signed_take_bit 63 (sint v * 60000000000)"
    by (simp add: sint_word_ariths sint_Minute)
  also have "\<dots> = sint v * 60000000000"
    using lo hi by (intro signed_take_bit_int_eq_self) simp_all
  finally show ?thesis by (simp add: sint_Minute)
qed

text \<open>
  Claim C10, as amended.  For every flag input whose \<^verbatim>\<open>timeout\<close> and \<^verbatim>\<open>action-timeout\<close>
  values (the defaults 30 and 1 when a flag is absent) lie between \<open>-153722867\<close> and
  \<open>153722867\<close>, \<^verbatim>\<open>Parse\<close> returns a \<^verbatim>\<open>Config\<close> whose \<^verbatim>\<open>GlobalTimeout\<close> is the \<^verbatim>\<open>timeout\<close>
  value times one minute and whose \<^verbatim>\<open>ActionTimeout\<close> is the \<^verbatim>\<open>action-timeout\<close> value times
  one minute, as numbers of nanoseconds.
\<close>

theorem Parse_timeouts_in_range:
  assumes "fits_minutes (flag_Var 30 (flag_timeout f))"
      and "fits_minutes (flag_Var 1 (flag_action_timeout f))"
  shows "sint (GlobalTimeout (Parse f)) = sint (flag_Var 30 (flag_timeout f)) * sint Minute
       \<and> sint (ActionTimeout (Parse f)) = sint (flag_Var 1 (flag_action_timeout f)) * sint Minute
       \<and> flag_Var 30 (None :: 64 word option) = 30
       \<and> flag_Var 1 (None :: 64 word option) = 1"
  using assms by (simp add: Parse_def Let_def sint_times_Minute) (simp add: flag_Var_def)

theorem Parse_timeouts_in_range_witness:
  "sint (GlobalTimeout (Parse \<lparr>flag_url = Some ''u'', flag_headless = None, flag_debug = None,
       flag_timeout = Some 45, flag_action_timeout = None\<rparr>)) = 45 * 60000000000
   \<and> sint (ActionTimeout (Parse \<lparr>flag_url = Some ''u'', flag_headless = None, flag_debug = None,
       flag_timeout = Some 45, flag_action_timeout = None\<rparr>)) = 1 * 60000000000"
  using Parse_timeouts_in_range [of "\<lparr>flag_url = Some ''u'', flag_headless = None, flag_debug = None,
       flag_timeout = Some 45, flag_action_timeout = None\<rparr>"]
  by (simp add: flag_Var_def fits_minutes_def sint_Minute)

text \<open>
  With \<^verbatim>\<open>-timeout 153722868\<close> the product leaves the 64 bits of a \<^verbatim>\<open>Duration\<close>: that many
  minutes are \<open>9223372080000000000\<close> nanoseconds, and \<^verbatim>\<open>GlobalTimeout\<close> is a negative
  duration instead.
\<close>

theorem Parse_timeout_overflow:
  "sint (GlobalTimeout (Parse \<lparr>flag_url = None, flag_headless = None, flag_debug = None,
       flag_timeout = Some 153722868, flag_action_timeout = None\<rparr>)) = - 9223371993709551616
   \<and> sint (153722868 :: 64 word) * sint Minute = 9223372080000000000"
  by (simp add: Parse_def flag_Var_def Minute_def Second_def)

section \<open>Properties of the action executor\<close>

lemma raw_error_Is: "raw_error err \<Longrightarrow> errors_Is err t = (err = ContextError t)"
  by (cases err) auto

lemma unmarshal_raw: "unmarshal tgt v = Inl err \<Longrightarrow> raw_error err \<and> (\<forall>ce. err \<noteq> ContextError ce)"
  by (cases "(tgt, v)" rule: unmarshal.cases) auto

lemma effect_raw: "effect a p = Inl err \<Longrightarrow> raw_error err \<and> (\<forall>ce. err \<noteq> ContextError ce)"
  by (cases a) (auto split: sum.splits dest: unmarshal_raw)

lemma perform_error:
  assumes "perform c a w = (Inl err, w1)"
  shows "raw_error err
       \<and> (\<forall>ce. err = ContextError ce \<longrightarrow> ctx_Err c (clock w1) = Some ce)
       \<and> ((\<forall>ce. err \<noteq> ContextError ce) \<longrightarrow> ctx_Err c (clock w1) = None)"
proof (cases "ctx_Err c (clock w)")
  case (Some e)
  with assms show ?thesis by (auto simp: perform_def)
next
  case None
  have cut: "\<And>w'. cut_off c w' = (Inl err, w1) \<Longrightarrow> ?thesis"
    by (auto simp: cut_off_def ctx_Err_def)
  show ?thesis
  proof (cases "local_action a")
    case (Some dur)
    with None assms cut show ?thesis
      by (auto simp: perform_def split: if_splits)
  next
    case na: None
    show ?thesis
    proof (cases "feed w")
      case Nil
      with None na assms cut show ?thesis by (auto simp: perform_def)
    next
      case (Cons r rs)
      with None na assms cut [of "w\<lparr>feed := rs\<rparr>"] show ?thesis
        by (cases r) (auto simp: perform_def within_def ctx_Err_def split: if_splits dest: effect_raw)
    qed
  qed
qed

lemma chromedp_Run_error:
  "chromedp_Run c as w = (Inl err, w1) \<Longrightarrow>
     raw_error err
     \<and> (\<forall>ce. err = ContextError ce \<longrightarrow> ctx_Err c (clock w1) = Some ce)
     \<and> ((\<forall>ce. err \<noteq> ContextError ce) \<longrightarrow> ctx_Err c (clock w1) = None)"
proof (induction as arbitrary: w)
  case Nil
  then show ?case by simp
next
  case (Cons a as)
  show ?case
  proof (cases "perform c a w")
    case (Pair r w')
    show ?thesis
    proof (cases r)
      case (Inl e)
      with Pair Cons.prems have "perform c a w = (Inl err, w1)" by simp
      then show ?thesis by (rule perform_error)
    next
      case (Inr vs)
      with Pair Cons.prems have "chromedp_Run c as w' = (Inl err, w1)"
        by (auto split: prod.splits sum.splits)
      then show ?thesis by (rule Cons.IH)
    qed
  qed
qed

lemma WithTimeout_Canceled:
  "ctx_Err (WithTimeout parent now d) t = Some Canceled \<Longrightarrow> ctx_Err parent t = Some Canceled"
  by (auto simp: WithTimeout_def ctx_Err_def ctx_end_def split: option.splits if_splits)

lemma WithTimeout_DeadlineExceeded:
  "ctx_Err (WithTimeout parent now d) t = Some DeadlineExceeded \<Longrightarrow>
     min (deadline parent) (now + sint d) \<le> t"
  by (auto simp: WithTimeout_def ctx_Err_def ctx_end_def split: option.splits if_splits)

lemma WithTimeout_parent_expired:
  "ctx_Err parent t = Some DeadlineExceeded \<Longrightarrow>
     ctx_Err (WithTimeout parent now d) t = Some DeadlineExceeded"
  by (auto simp: WithTimeout_def ctx_Err_def ctx_end_def split: option.splits if_splits)

lemma WithTimeout_end: "fst (ctx_end (WithTimeout parent now d)) \<le> fst (ctx_end parent)"
  by (auto simp: WithTimeout_def ctx_end_def split: option.splits)

text \<open>
  Claim C3, as amended.  Every failing call of \<^verbatim>\<open>runWithTimeout\<close> falls under exactly one
  of three kinds, and which one is settled by the state of the contexts.  If the session
  was over before the call, nothing is run and the failure tells of a cancelled session.
  Otherwise the actions have run under the context of the call, and when the call returns
  \<^item> that context has been cancelled from outside: the failure tells of a cancelled
    session, and the session is cancelled indeed;
  \<^item> a deadline of that context has passed, the one of the call or the one of the session,
    whichever comes first: the failure tells of a timeout of the action;
  \<^item> that context is still alive: the error of the browser is passed on unchanged.
  So a session budget that runs out during the call is reported as a timeout of the
  action; only one that has run out before the call is reported as a cancelled session.
\<close>

theorem runWithTimeout_failure_classes:
  assumes "runWithTimeout s actions w = (Inl e, w1)"
  shows "(case ctx_Err (ctx s) (clock w) of
            Some ce \<Rightarrow> e = ParentContextCanceled ce \<and> classify e = SessionCancelled \<and> w1 = w
          | None \<Rightarrow>
             (\<exists>err. chromedp_Run (WithTimeout (ctx s) (clock w) (actionTimeout s)) actions w
                       = (Inl err, w1)
                \<and> (case ctx_Err (WithTimeout (ctx s) (clock w) (actionTimeout s)) (clock w1) of
                     Some Canceled \<Rightarrow>
                       err = ContextError Canceled \<and> e = CanceledDuringExecution
                       \<and> classify e = SessionCancelled
                       \<and> ctx_Err (ctx s) (clock w1) = Some Canceled
                   | Some DeadlineExceeded \<Rightarrow>
                       err = ContextError DeadlineExceeded \<and> e = TimedOutAfter (actionTimeout s)
                       \<and> classify e = ActionTimedOut
                       \<and> min (deadline (ctx s)) (clock w + sint (actionTimeout s)) \<le> clock w1
                   | None \<Rightarrow>
                       e = err \<and> classify e = ActionFailed \<and> raw_error err
                       \<and> (\<forall>ce. err \<noteq> ContextError ce))))
       \<and> (ctx_Err (ctx s) (clock w) = None \<and> ctx_Err (ctx s) (clock w1) = Some DeadlineExceeded
            \<longrightarrow> e = TimedOutAfter (actionTimeout s) \<and> classify e = ActionTimedOut)"
proof (cases "ctx_Err (ctx s) (clock w)")
  case (Some ce)
  with assms show ?thesis by (auto simp: runWithTimeout_def)
next
  case None
  let ?child = "WithTimeout (ctx s) (clock w) (actionTimeout s)"
  from assms None obtain err where run: "chromedp_Run ?child actions w = (Inl err, w1)"
    and e: "e = (if errors_Is err Canceled then CanceledDuringExecution
                 else if errors_Is err DeadlineExceeded then TimedOutAfter (actionTimeout s)
                 else err)"
    by (auto simp: runWithTimeout_def Let_def split: prod.splits sum.splits if_splits)
  from chromedp_Run_error [OF run] have raw: "raw_error err"
    and at_end: "\<And>ce. err = ContextError ce \<Longrightarrow> ctx_Err ?child (clock w1) = Some ce"
    and alive: "(\<forall>ce. err \<noteq> ContextError ce) \<Longrightarrow> ctx_Err ?child (clock w1) = None"
    by auto
  have main: "case ctx_Err ?child (clock w1) of
                     Some Canceled \<Rightarrow>
                       err = ContextError Canceled \<and> e = CanceledDuringExecution
                       \<and> classify e = SessionCancelled
                       \<and> ctx_Err (ctx s) (clock w1) = Some Canceled
                   | Some DeadlineExceeded \<Rightarrow>
                       err = ContextError DeadlineExceeded \<and> e = TimedOutAfter (actionTimeout s)
                       \<and> classify e = ActionTimedOut
                       \<and> min (deadline (ctx s)) (clock w + sint (actionTimeout s)) \<le> clock w1
                   | None \<Rightarrow>
                       e = err \<and> classify e = ActionFailed \<and> raw_error err
                       \<and> (\<forall>ce. err \<noteq> ContextError ce)"
  proof (cases "\<exists>ce. err = ContextError ce")
    case True
    then obtain ce where err: "err = ContextError ce" ..
    from at_end [OF err] have st: "ctx_Err ?child (clock w1) = Some ce" .
    show ?thesis
    proof (cases ce)
      case Canceled
      with err e st WithTimeout_Canceled [of "ctx s" "clock w" "actionTimeout s" "clock w1"]
      show ?thesis by simp
    next
      case DeadlineExceeded
      with err e st WithTimeout_DeadlineExceeded [of "ctx s" "clock w" "actionTimeout s" "clock w1"]
      show ?thesis by simp
    qed
  next
    case False
    then have no: "\<forall>ce. err \<noteq> ContextError ce" by simp
    from alive [OF no] have st: "ctx_Err ?child (clock w1) = None" .
    from raw no have "\<not> errors_Is err Canceled" "\<not> errors_Is err DeadlineExceeded"
      by (simp_all add: raw_error_Is)
    with e have ee: "e = err" by simp
    from raw no have "classify err = ActionFailed" by (cases err) auto
    with st ee raw no show ?thesis by simp
  qed
  have second: "ctx_Err (ctx s) (clock w1) = Some DeadlineExceeded
            \<longrightarrow> e = TimedOutAfter (actionTimeout s) \<and> classify e = ActionTimedOut"
  proof
    assume "ctx_Err (ctx s) (clock w1) = Some DeadlineExceeded"
    then have "ctx_Err ?child (clock w1) = Some DeadlineExceeded"
      by (rule WithTimeout_parent_expired)
    with main show "e = TimedOutAfter (actionTimeout s) \<and> classify e = ActionTimedOut" by simp
  qed
  from None run main second show ?thesis by auto
qed

lemmas eval_defs = example_scraper_def browser_def runWithTimeout_def ctx_Err_def ctx_end_def
  WithTimeout_def perform_def cut_off_def within_def Minute_def Second_def

theorem runWithTimeout_failure_classes_witness:
  "runWithTimeout example_scraper [Click ''.drop_arrow'' ByQuery] (browser [Hangs])
     = (Inl (TimedOutAfter Minute), (browser [])\<lparr>clock := 60000000000\<rparr>)
   \<and> classify (TimedOutAfter Minute) = ActionTimedOut
   \<and> ctx_Err (ctx example_scraper) 60000000000 = None
   \<and> ctx_Err (WithTimeout (ctx example_scraper) 0 Minute) 60000000000 = Some DeadlineExceeded
   \<and> runWithTimeout cancelled_session [Click ''.drop_arrow'' ByQuery] (browser [Hangs])
     = (Inl CanceledDuringExecution, (browser [])\<lparr>clock := 30\<rparr>)
   \<and> ctx_Err (ctx cancelled_session) 0 = None
   \<and> ctx_Err (ctx cancelled_session) 30 = Some Canceled
   \<and> runWithTimeout example_scraper [Click ''.drop_arrow'' ByQuery] (browser [Fails 5 ''no such element''])
     = (Inl (BrowserError ''no such element''), (browser [])\<lparr>clock := 5\<rparr>)
   \<and> classify (BrowserError ''no such element'') = ActionFailed"
proof -
  have run: "runWithTimeout example_scraper [Click ''.drop_arrow'' ByQuery] (browser [Hangs])
     = (Inl (TimedOutAfter Minute), (browser [])\<lparr>clock := 60000000000\<rparr>)"
    by (simp add: eval_defs)
  have run2: "runWithTimeout cancelled_session [Click ''.drop_arrow'' ByQuery] (browser [Hangs])
     = (Inl CanceledDuringExecution, (browser [])\<lparr>clock := 30\<rparr>)"
    by (simp add: eval_defs cancelled_session_def)
  have run3: "runWithTimeout example_scraper [Click ''.drop_arrow'' ByQuery] (browser [Fails 5 ''no such element''])
     = (Inl (BrowserError ''no such element''), (browser [])\<lparr>clock := 5\<rparr>)"
    by (simp add: eval_defs)
  from runWithTimeout_failure_classes [OF run] runWithTimeout_failure_classes [OF run2]
    runWithTimeout_failure_classes [OF run3] run run2 run3
  show ?thesis
    by (simp add: example_scraper_def cancelled_session_def browser_def ctx_Err_def ctx_end_def
          WithTimeout_def Minute_def Second_def)
qed

text \<open>
  The session ends at 100, the call starts at 50 with 60 for the action, and the browser
  never answers.  The call returns at 100, when the session budget is used up and ten
  units before the deadline of the action, and reports that the action timed out.
\<close>

theorem session_expiry_reported_as_action_timeout:
  "ctx_Err (ctx short_session) 50 = None
   \<and> runWithTimeout short_session [Click ''.drop_arrow'' ByQuery]
        \<lparr>clock = 50, feed = [Hangs], browserGone = None, released = []\<rparr>
     = (Inl (TimedOutAfter 60), \<lparr>clock = 100, feed = [], browserGone = None, released = []\<rparr>)
   \<and> classify (TimedOutAfter 60) = ActionTimedOut
   \<and> ctx_Err (ctx short_session) 100 = Some DeadlineExceeded
   \<and> 100 < 50 + sint (actionTimeout short_session)"
  by (simp add: short_session_def runWithTimeout_def ctx_Err_def ctx_end_def WithTimeout_def
        perform_def cut_off_def within_def)

section \<open>Properties of the scripts and of the decoding\<close>

lemma field_update_keys:
  "field_update ''name'' = Some (\<lambda>v r. r\<lparr>Name := v\<rparr>)"
  "field_update ''error'' = Some (\<lambda>v r. r\<lparr>Error := v\<rparr>)"
  "field_update ''headSize'' = Some (\<lambda>v r. r\<lparr>HeadSize := v\<rparr>)"
  "field_update ''length'' = Some (\<lambda>v r. r\<lparr>Length := v\<rparr>)"
  "field_update ''balance'' = Some (\<lambda>v r. r\<lparr>Balance := v\<rparr>)"
  "field_update ''swingWeight'' = Some (\<lambda>v r. r\<lparr>SwingWeight := v\<rparr>)"
  "field_update ''beamWidth'' = Some (\<lambda>v r. r\<lparr>BeamWidth := v\<rparr>)"
  "field_update ''tipOrShaft'' = Some (\<lambda>v r. r\<lparr>TipOrShaft := v\<rparr>)"
  "field_update ''composition'' = Some (\<lambda>v r. r\<lparr>Composition := v\<rparr>)"
  "field_update ''powerLevel'' = Some (\<lambda>v r. r\<lparr>PowerLevel := v\<rparr>)"
  "field_update ''stiffness'' = Some (\<lambda>v r. r\<lparr>Stiffness := v\<rparr>)"
  "field_update ''stringPattern'' = Some (\<lambda>v r. r\<lparr>StringPattern := v\<rparr>)"
  "field_update ''mainSkip'' = Some (\<lambda>v r. r\<lparr>MainSkip := v\<rparr>)"
  "field_update ''stringTension'' = Some (\<lambda>v r. r\<lparr>StringTension := v\<rparr>)"
  by (simp_all add: field_update_def EqualFold_def lower_def char_of_def bit_Suc_0_iff)

lemma decode_script_object:
  "decode [(''name'', JString n), (''error'', JString e), (''headSize'', JString v1),
           (''length'', JString v2), (''balance'', JString v3), (''swingWeight'', JString v4),
           (''beamWidth'', JString v5), (''tipOrShaft'', JString v6),
           (''composition'', JString v7), (''powerLevel'', JString v8),
           (''stiffness'', JString v9), (''stringPattern'', JString v10),
           (''mainSkip'', JString v11), (''stringTension'', JString v12)] zero_RacquetSpecs
   = Inr \<lparr>Name = n, Error = e, HeadSize = v1, Length = v2, Balance = v3, SwingWeight = v4,
          BeamWidth = v5, TipOrShaft = v6, Composition = v7, PowerLevel = v8, Stiffness = v9,
          StringPattern = v10, MainSkip = v11, StringTension = v12\<rparr>"
  by (simp add: field_update_keys zero_RacquetSpecs_def)

lemma getSpecs_labels:
  assumes "getSpecs parent spec_labels = Inr kvs"
  shows "\<exists>v1 v2 v3 v4 v5 v6 v7 v8 v9 v10 v11 v12.
      getSpec parent ''Head Size:'' = Inr v1 \<and> getSpec parent ''Length:'' = Inr v2
    \<and> getSpec parent ''Balance:'' = Inr v3 \<and> getSpec parent ''Swing Weight:'' = Inr v4
    \<and> getSpec parent ''Beam Width:'' = Inr v5 \<and> getSpec parent ''Tip/Shaft:'' = Inr v6
    \<and> getSpec parent ''Composition:'' = Inr v7 \<and> getSpec parent ''Power Level:'' = Inr v8
    \<and> getSpec parent ''Stiffness:'' = Inr v9 \<and> getSpec parent ''String Pattern:'' = Inr v10
    \<and> getSpec parent ''Main Skip:'' = Inr v11 \<and> getSpec parent ''String Tension:'' = Inr v12
    \<and> kvs = [(''headSize'', JString v1), (''length'', JString v2), (''balance'', JString v3),
             (''swingWeight'', JString v4), (''beamWidth'', JString v5),
             (''tipOrShaft'', JString v6), (''composition'', JString v7),
             (''powerLevel'', JString v8), (''stiffness'', JString v9),
             (''stringPattern'', JString v10), (''mainSkip'', JString v11),
             (''stringTension'', JString v12)]"
  using assms unfolding spec_labels_def
  by (simp split: sum.splits)




lemma perform_feed: "perform c a w = (r, w1) \<Longrightarrow> set (feed w1) \<subseteq> set (feed w)"
  by (auto simp: perform_def cut_off_def
           split: option.splits if_splits list.splits response.splits)

lemma chromedp_Run_feed: "chromedp_Run c as w = (r, w1) \<Longrightarrow> set (feed w1) \<subseteq> set (feed w)"
proof (induction as arbitrary: w r w1)
  case Nil
  then show ?case by simp
next
  case (Cons a as)
  obtain r0 w0 where p: "perform c a w = (r0, w0)" by (cases "perform c a w")
  then have sub: "set (feed w0) \<subseteq> set (feed w)" by (rule perform_feed)
  show ?case
  proof (cases r0)
    case (Inl e)
    with p Cons.prems sub show ?thesis by simp
  next
    case (Inr vs)
    obtain r' w' where run: "chromedp_Run c as w0 = (r', w')" by (cases "chromedp_Run c as w0")
    with Inr p Cons.prems have "w1 = w'" by (auto split: sum.splits)
    with Cons.IH [OF run] sub show ?thesis by blast
  qed
qed

lemma runWithTimeout_feed: "runWithTimeout s as w = (r, w1) \<Longrightarrow> set (feed w1) \<subseteq> set (feed w)"
  by (auto simp: runWithTimeout_def Let_def split: option.splits prod.splits sum.splits if_splits
           dest: chromedp_Run_feed)

lemma perform_browser_ok:
  assumes "perform c a w = (Inr vs, w1)" and "local_action a = None"
  shows "\<exists>d p rs. feed w = Completes d p # rs \<and> feed w1 = rs
            \<and> clock w1 = clock w + int d \<and> effect a p = Inr vs"
  using assms
  by (auto simp: perform_def cut_off_def
           split: option.splits if_splits list.splits response.splits)

lemma perform_local_ok:
  assumes "perform c a w = (Inr vs, w1)" and "local_action a = Some dur"
  shows "vs = [] \<and> feed w1 = feed w \<and> clock w1 = clock w + dur"
  using assms
  by (auto simp: perform_def cut_off_def split: option.splits if_splits)

lemma runWithTimeout_single_ok:
  assumes "runWithTimeout s [a] w = (Inr vs, w1)" and "local_action a = None"
  shows "\<exists>d p rs. feed w = Completes d p # rs \<and> feed w1 = rs \<and> effect a p = Inr vs"
proof -
  from assms(1) obtain c where "perform c a w = (Inr vs, w1)"
    by (auto simp: runWithTimeout_def Let_def split: option.splits prod.splits sum.splits if_splits)
  from perform_browser_ok [OF this assms(2)] show ?thesis by blast
qed

text \<open>What a step does when the browser answers in time.\<close>

lemma ctx_alive: "ctx_Err c t = None \<longleftrightarrow> t < fst (ctx_end c)"
  by (simp add: ctx_Err_def)

lemma perform_answered:
  assumes "local_action a = None" and "feed w = Completes d p # rest" and "within c w (int d)"
  shows "perform c a w = (effect a p, w\<lparr>feed := rest, clock := clock w + int d\<rparr>)"
proof -
  from assms(3) have "clock w < fst (ctx_end c)" by (simp add: within_def)
  then have "ctx_Err c (clock w) = None" by (simp add: ctx_alive)
  with assms show ?thesis by (simp add: perform_def)
qed

lemma perform_failed:
  assumes "local_action a = None" and "feed w = Fails d msg # rest" and "within c w (int d)"
  shows "perform c a w = (Inl (BrowserError msg), w\<lparr>feed := rest, clock := clock w + int d\<rparr>)"
proof -
  from assms(3) have "clock w < fst (ctx_end c)" by (simp add: within_def)
  then have "ctx_Err c (clock w) = None" by (simp add: ctx_alive)
  with assms show ?thesis by (simp add: perform_def)
qed

lemma perform_slept:
  assumes "local_action a = Some dur" and "0 \<le> dur" and "within c w dur"
  shows "perform c a w = (Inr [], w\<lparr>clock := clock w + dur\<rparr>)"
proof -
  from assms(2,3) have "clock w < fst (ctx_end c)" by (simp add: within_def)
  then have "ctx_Err c (clock w) = None" by (simp add: ctx_alive)
  with assms show ?thesis by (simp add: perform_def)
qed


text \<open>Names as the script reads them.\<close>

lemmas cook_defs = cook_def line_terminators_def hex_def is_digit_def utf8_def single_escape_def
  continuation_def char_of_def bit_Suc_0_iff

lemma cook_X: "cook ''X'' = Cooked ''X''" "cook ''Y'' = Cooked ''Y''"
  by (simp_all add: cook_defs)





lemma strip_stops: "find (\<lambda>ws. ws \<noteq> [] \<and> prefix ws s) seqs = None \<Longrightarrow> strip seqs s = s"
  by (simp add: strip.simps)

lemma strip_clean: "find (\<lambda>ws. ws \<noteq> [] \<and> prefix ws (strip seqs s)) seqs = None"
proof (induction seqs s rule: strip.induct)
  case (1 seqs s)
  show ?case
  proof (cases "find (\<lambda>ws. ws \<noteq> [] \<and> prefix ws s) seqs")
    case None
    then show ?thesis by (simp add: strip.simps)
  next
    case (Some ws)
    with "1.IH" [OF Some] show ?thesis by (simp add: strip.simps [of seqs s])
  qed
qed

lemma strip_suffix: "suffix (strip seqs s) s"
proof (induction seqs s rule: strip.induct)
  case (1 seqs s)
  show ?case
  proof (cases "find (\<lambda>ws. ws \<noteq> [] \<and> prefix ws s) seqs")
    case None
    then show ?thesis by (simp add: strip.simps)
  next
    case (Some ws)
    from "1.IH" [OF Some] have "suffix (strip seqs (drop (length ws) s)) (drop (length ws) s)" .
    also have "suffix (drop (length ws) s) s" by (rule suffix_drop)
    finally show ?thesis using Some by (simp add: strip.simps [of seqs s])
  qed
qed

lemma strip_idem: "strip seqs (strip seqs s) = strip seqs s"
  by (rule strip_stops) (rule strip_clean)

lemma find_prefix_mono:
  assumes "find (\<lambda>ws. ws \<noteq> [] \<and> prefix ws s) seqs = None" and "prefix t s"
  shows "find (\<lambda>ws. ws \<noteq> [] \<and> prefix ws t) seqs = None"
  using assms by (auto simp: find_None_iff dest: prefix_order.trans)

lemma trim_idem: "trim (trim s) = trim s"
proof -
  let ?a = "strip js_whitespace s"
  let ?b = "strip (map rev js_whitespace) (rev ?a)"
  have t: "trim s = rev ?b" by (simp add: trim_def)
  have "suffix ?b (rev ?a)" by (rule strip_suffix)
  then have "prefix (rev ?b) ?a" by (simp add: suffix_to_prefix)
  with strip_clean [of js_whitespace s]
  have "find (\<lambda>ws. ws \<noteq> [] \<and> prefix ws (rev ?b)) js_whitespace = None"
    by (rule find_prefix_mono)
  then have 1: "strip js_whitespace (rev ?b) = rev ?b" by (rule strip_stops)
  have 2: "strip (map rev js_whitespace) ?b = ?b" by (rule strip_idem)
  have "trim (rev ?b) = rev (strip (map rev js_whitespace) (rev (strip js_whitespace (rev ?b))))"
    by (rule trim_def)
  also have "\<dots> = rev ?b" by (simp only: 1 2 rev_rev_ident)
  finally show ?thesis by (simp only: t)
qed

section \<open>Properties of the detail extractor\<close>

text \<open>
  Claim C8.  For every list of identifiers, in every state of the browser and the
  session, the error \<^verbatim>\<open>getRacquetInfo\<close> returns is \<^verbatim>\<open>nil\<close>; the branch of its caller for
  another error is never taken.
\<close>

theorem getRacquetInfo_error_nil: "snd (fst (getRacquetInfo s racNames w)) = None"
  by (simp add: getRacquetInfo_def split: prod.split)

lemma specs_object:
  assumes kvs: "getSpecs parent spec_labels = Inr kvs"
  shows "\<exists>r. decode ((''name'', JString n) # (''error'', JString []) # kvs) zero_RacquetSpecs = Inr r
           \<and> Name r = n \<and> Error r = []
           \<and> list_all (\<lambda>(label, fld). getSpec parent label = Inr (fld r)) labelled_fields"
proof -
  from getSpecs_labels [OF kvs] obtain v1 v2 v3 v4 v5 v6 v7 v8 v9 v10 v11 v12 where
    g: "getSpec parent ''Head Size:'' = Inr v1" "getSpec parent ''Length:'' = Inr v2"
       "getSpec parent ''Balance:'' = Inr v3" "getSpec parent ''Swing Weight:'' = Inr v4"
       "getSpec parent ''Beam Width:'' = Inr v5" "getSpec parent ''Tip/Shaft:'' = Inr v6"
       "getSpec parent ''Composition:'' = Inr v7" "getSpec parent ''Power Level:'' = Inr v8"
       "getSpec parent ''Stiffness:'' = Inr v9" "getSpec parent ''String Pattern:'' = Inr v10"
       "getSpec parent ''Main Skip:'' = Inr v11" "getSpec parent ''String Tension:'' = Inr v12"
    and k: "kvs = [(''headSize'', JString v1), (''length'', JString v2), (''balance'', JString v3),
             (''swingWeight'', JString v4), (''beamWidth'', JString v5),
             (''tipOrShaft'', JString v6), (''composition'', JString v7),
             (''powerLevel'', JString v8), (''stiffness'', JString v9),
             (''stringPattern'', JString v10), (''mainSkip'', JString v11),
             (''stringTension'', JString v12)]"
    by blast
  have "decode ((''name'', JString n) # (''error'', JString []) # kvs) zero_RacquetSpecs =
      Inr \<lparr>Name = n, Error = [], HeadSize = v1, Length = v2, Balance = v3, SwingWeight = v4,
          BeamWidth = v5, TipOrShaft = v6, Composition = v7, PowerLevel = v8, Stiffness = v9,
          StringPattern = v10, MainSkip = v11, StringTension = v12\<rparr>"
    unfolding k by (rule decode_script_object)
  with g show ?thesis by (simp add: labelled_fields_def)
qed

lemma specs_effect:
  assumes cooked: "cook name = Cooked literal"
      and eff: "effect (Evaluate (SpecsScript name) IntoString) p = Inr vs"
      and dec: "json_Unmarshal vs = Inr r"
  shows "read_from literal p r"
proof -
  from eff obtain v where v: "specs_script name p = Inr v" and un: "unmarshal IntoString v = Inr vs"
    by (auto split: sum.splits)
  from un obtain obj where obj: "v = JSStringified obj" "vs = [GoJSON obj]"
    by (cases v) auto
  from v obj(1) cooked obtain el parent kvs where
        found: "findDiv literal (rac_name_elems p) None = Some el"
    and par: "rn_parentNode el = Some parent"
    and kvs: "getSpecs parent spec_labels = Inr kvs"
    and o: "obj = (''name'', JString literal) # (''error'', JString []) # kvs"
    by (auto simp: specs_script_def split: if_splits option.splits sum.splits)
  from specs_object [OF kvs, of literal] dec obj(2) o
  have "Name r = literal \<and> Error r = []
           \<and> list_all (\<lambda>(label, fld). getSpec parent label = Inr (fld r)) labelled_fields"
    by auto
  with found par show ?thesis by (simp add: read_from_def)
qed

lemma specs_uncompilable:
  assumes "cook name = Uncompilable"
  shows "effect (Evaluate (SpecsScript name) IntoString) p = Inl (ScriptException ''SyntaxError'')"
  using assms by (simp add: specs_script_def)

lemma getRacquetInfo_loop_records:
  "getRacquetInfo_loop s racNames specs w = (out, w1) \<Longrightarrow> r \<in> set out \<Longrightarrow>
     r \<in> set specs
     \<or> (\<exists>name\<in>set racNames. \<exists>d p. Completes d p \<in> set (feed w)
           \<and> (cook name = Foreign \<or> (\<exists>literal. cook name = Cooked literal \<and> read_from literal p r)))"
proof (induction racNames arbitrary: specs w)
  case Nil
  then show ?case by simp
next
  case (Cons name racNames)
  obtain res wa where step: "runWithTimeout s [Evaluate (SpecsScript name) IntoString] w = (res, wa)"
    by (cases "runWithTimeout s [Evaluate (SpecsScript name) IntoString] w")
  then have sub: "set (feed wa) \<subseteq> set (feed w)" by (rule runWithTimeout_feed)
  have skip: ?case if "getRacquetInfo_loop s racNames specs wa = (out, w1)"
    using Cons.IH [OF that Cons.prems(2)] sub by auto
  show ?case
  proof (cases res)
    case (Inl e)
    with step Cons.prems(1) skip show ?thesis by simp
  next
    case (Inr vs)
    show ?thesis
    proof (cases "json_Unmarshal vs")
      case (Inl e)
      with Inr step Cons.prems(1) skip show ?thesis by simp
    next
      case dec: (Inr info)
      with Inr step Cons.prems(1)
      have loop: "getRacquetInfo_loop s racNames (specs @ [info]) wa = (out, w1)" by simp
      from step Inr runWithTimeout_single_ok [of s "Evaluate (SpecsScript name) IntoString" w vs wa]
      obtain d p rs where f: "feed w = Completes d p # rs"
        and eff: "effect (Evaluate (SpecsScript name) IntoString) p = Inr vs" by auto
      have info: "cook name = Foreign \<or> (\<exists>literal. cook name = Cooked literal \<and> read_from literal p info)"
      proof (cases "cook name")
        case (Cooked literal)
        from specs_effect [OF this eff dec] Cooked show ?thesis by simp
      next
        case Uncompilable
        from specs_uncompilable [OF this, of p] eff show ?thesis by simp
      next
        case Foreign
        then show ?thesis by simp
      qed
      from Cons.IH [OF loop Cons.prems(2)] show ?thesis
      proof
        assume "r \<in> set (specs @ [info])"
        with info f show ?thesis by auto
      next
        assume "\<exists>name\<in>set racNames. \<exists>d p. Completes d p \<in> set (feed wa)
           \<and> (cook name = Foreign \<or> (\<exists>literal. cook name = Cooked literal \<and> read_from literal p r))"
        with sub show ?thesis by auto
      qed
    qed
  qed
qed

lemma getRacquetInfo_Error_empty:
  assumes "r \<in> set (fst (fst (getRacquetInfo s racNames w)))"
      and "\<forall>name\<in>set racNames. cook name \<noteq> Foreign"
  shows "Error r = []"
proof -
  obtain out w1 where loop: "getRacquetInfo_loop s racNames [] w = (out, w1)"
    by (cases "getRacquetInfo_loop s racNames [] w")
  with assms have "r \<in> set out" by (simp add: getRacquetInfo_def)
  from getRacquetInfo_loop_records [OF loop this] assms(2) show ?thesis
    by (auto simp: read_from_def split: option.splits)
qed




lemma specs_script_X:
  "specs_script ''X'' page_X =
     Inr (JSStringified [(''name'', JString ''X''), (''error'', JString []),
       (''headSize'', JString ''100''), (''length'', JString []), (''balance'', JString []),
       (''swingWeight'', JString []), (''beamWidth'', JString []), (''tipOrShaft'', JString []),
       (''composition'', JString []), (''powerLevel'', JString []), (''stiffness'', JString []),
       (''stringPattern'', JString []), (''mainSkip'', JString []),
       (''stringTension'', JString [])])"
  by (simp add: specs_script_def cook_X page_X_def trim_def strip.simps js_whitespace_def spec_labels_def)

lemma specs_script_Y:
  "specs_script ''Y'' page_X =
     Inr (JSObject [(''name'', JString ''Y''), (''error'', JString ''Couldn't find racDiv'')])"
  by (simp add: specs_script_def cook_X page_X_def trim_def strip.simps js_whitespace_def)



lemma scripts_X:
  "rac_names_script page_X = Inr (JSStrings [''X''])"
  "options_script page_X = Inr (JSStrings [''A'', ''B''])"
  "uncheck_script page_X = Inr JSUndefined"
  by (simp_all add: rac_names_script_def options_script_def uncheck_script_def page_X_def
        trim_def strip.simps js_whitespace_def)

lemma getRacquetInfo_X:
  "getRacquetInfo example_scraper [''X''] (browser [Completes 1000 page_X])
     = (([record_X], None), (browser [])\<lparr>clock := 1000\<rparr>)"
  by (simp add: getRacquetInfo_def eval_defs specs_script_X field_update_keys
        zero_RacquetSpecs_def record_X_def)




text \<open>
  Claim C2, at an input where it fails.  Asked for \<open>Y\<close> on a page that has no such
  racquet, the script returns the object with the name and the error itself, not its
  JSON text; that is no value for the string the result is read into, the evaluation
  fails, and \<^verbatim>\<open>getRacquetInfo\<close> goes on to the next identifier: no record for \<open>Y\<close> is in
  the output.  (By \<open>getRacquetInfo_Error_empty\<close> no record with an error is in the output
  for any identifiers that stand for a string in the script.)
\<close>

theorem getRacquetInfo_drops_not_found:
  "specs_script ''Y'' page_X =
     Inr (JSObject [(''name'', JString ''Y''), (''error'', JString ''Couldn't find racDiv'')])
   \<and> getRacquetInfo example_scraper [''Y''] (browser [Completes 1000 page_X])
     = (([], None), (browser [])\<lparr>clock := 1000\<rparr>)"
  by (simp add: getRacquetInfo_def eval_defs specs_script_Y)

section \<open>Properties of the option processor\<close>

lemma processOptions_loop_results:
  "fst (processOptions_loop s options results w) = results"
  by (induction options arbitrary: results w)
     (simp_all add: Let_def split: prod.split sum.split bool.split)

lemma processOptions_loop_append:
  "processOptions_loop s (xs @ ys) results w =
     (case processOptions_loop s xs results w of (r, w1) \<Rightarrow> processOptions_loop s ys r w1)"
  by (induction xs arbitrary: results w)
     (simp_all add: Let_def split: prod.split sum.split bool.split)

lemma processOptions_error_nil: "snd (fst (processOptions s options w)) = None"
  by (simp add: processOptions_def split: prod.split)

lemma processOptions_results_nil: "fst (fst (processOptions s options w)) = []"
proof -
  obtain results w1 where loop: "processOptions_loop s options [] w = (results, w1)"
    by (cases "processOptions_loop s options [] w")
  with processOptions_loop_results [of s options "[]" w] have "results = []" by simp
  with loop show ?thesis by (simp add: processOptions_def)
qed

lemma processOptions_loop_skips:
  assumes "runWithTimeout s (select_actions opt) w = (Inl e, w1)
           \<or> (\<exists>vs wm. runWithTimeout s (select_actions opt) w = (Inr vs, wm)
                      \<and> runWithTimeout s harvest_actions wm = (Inl e, w1))"
  shows "processOptions_loop s (opt # rest) results w = processOptions_loop s rest results w1"
  using assms by (auto simp: Let_def)

text \<open>
  Claim C1, at an input where it fails.  Option \<open>A\<close> is selected, the search lists \<open>X\<close>,
  and \<^verbatim>\<open>getRacquetInfo\<close> produces the record of \<open>X\<close>; \<^verbatim>\<open>processOptions\<close> returns no record.
  (By \<open>processOptions_results_nil\<close> it returns none on any input: what it appends is the
  slice declared at the top of the loop body, which stays empty.)
\<close>

theorem processOptions_loses_harvested_record:
  "runWithTimeout example_scraper harvest_actions
       ((browser [Completes 1000 page_X, Completes 1000 page_X, Completes 1000 page_X])\<lparr>clock := 3000002000\<rparr>)
     = (Inr [GoStrings [''X'']],
        (browser [Completes 1000 page_X, Completes 1000 page_X])\<lparr>clock := 3000003000\<rparr>)
   \<and> getRacquetInfo example_scraper [''X'']
       ((browser [Completes 1000 page_X, Completes 1000 page_X])\<lparr>clock := 3000003000\<rparr>)
     = (([record_X], None), (browser [Completes 1000 page_X])\<lparr>clock := 3000004000\<rparr>)
   \<and> processOptions example_scraper [''A'']
       (browser [Completes 1000 page_X, Completes 1000 page_X, Completes 1000 page_X,
                 Completes 1000 page_X, Completes 1000 page_X])
     = (([], None), (browser [])\<lparr>clock := 4000005000\<rparr>)"
proof (intro conjI)
  show "runWithTimeout example_scraper harvest_actions
       ((browser [Completes 1000 page_X, Completes 1000 page_X, Completes 1000 page_X])\<lparr>clock := 3000002000\<rparr>)
     = (Inr [GoStrings [''X'']],
        (browser [Completes 1000 page_X, Completes 1000 page_X])\<lparr>clock := 3000003000\<rparr>)"
    by (simp add: eval_defs harvest_actions_def scripts_X)
  show "getRacquetInfo example_scraper [''X'']
       ((browser [Completes 1000 page_X, Completes 1000 page_X])\<lparr>clock := 3000003000\<rparr>)
     = (([record_X], None), (browser [Completes 1000 page_X])\<lparr>clock := 3000004000\<rparr>)"
    by (simp add: getRacquetInfo_def eval_defs specs_script_X field_update_keys
          zero_RacquetSpecs_def record_X_def)
  show "processOptions example_scraper [''A'']
       (browser [Completes 1000 page_X, Completes 1000 page_X, Completes 1000 page_X,
                 Completes 1000 page_X, Completes 1000 page_X])
     = (([], None), (browser [])\<lparr>clock := 4000005000\<rparr>)"
    by (simp add: processOptions_def getRacquetInfo_def eval_defs select_actions_def
          harvest_actions_def reopen_actions_def scripts_X specs_script_X
          field_update_keys zero_RacquetSpecs_def)
qed

text \<open>
  Claim C4, at an input where it fails.  Of the options \<open>A\<close> and \<open>B\<close> the first goes
  through: it is selected, the search lists \<open>X\<close>, and \<^verbatim>\<open>getRacquetInfo\<close> produces the
  record of \<open>X\<close>.  Selecting \<open>B\<close> fails.  The run goes on and ends without an error, as
  the claim has it (\<open>processOptions_loop_skips\<close>, \<open>processOptions_error_nil\<close>), but it
  does not return the record gathered for \<open>A\<close>: it returns no record.  This is the defect
  of claim C1 again: what the loop appends to its results is the slice declared at the
  top of its body, which stays empty, not the one \<^verbatim>\<open>getRacquetInfo\<close> has filled.
\<close>

theorem processOptions_drops_gathered_record:
  "getRacquetInfo example_scraper [''X'']
       ((browser [Completes 1000 page_X, Completes 1000 page_X, Fails 5 ''no such element''])
          \<lparr>clock := 3000003000\<rparr>)
     = (([record_X], None),
        (browser [Completes 1000 page_X, Fails 5 ''no such element''])\<lparr>clock := 3000004000\<rparr>)
   \<and> runWithTimeout example_scraper (select_actions ''B'')
       ((browser [Fails 5 ''no such element''])\<lparr>clock := 4000005000\<rparr>)
     = (Inl (BrowserError ''no such element''), (browser [])\<lparr>clock := 4000005005\<rparr>)
   \<and> processOptions example_scraper [''A'', ''B'']
       (browser [Completes 1000 page_X, Completes 1000 page_X, Completes 1000 page_X,
                 Completes 1000 page_X, Completes 1000 page_X, Fails 5 ''no such element''])
     = (([], None), (browser [])\<lparr>clock := 4000005005\<rparr>)"
proof (intro conjI)
  show "getRacquetInfo example_scraper [''X'']
       ((browser [Completes 1000 page_X, Completes 1000 page_X, Fails 5 ''no such element''])
          \<lparr>clock := 3000003000\<rparr>)
     = (([record_X], None),
        (browser [Completes 1000 page_X, Fails 5 ''no such element''])\<lparr>clock := 3000004000\<rparr>)"
    by (simp add: getRacquetInfo_def eval_defs specs_script_X field_update_keys
          zero_RacquetSpecs_def record_X_def)
  show "runWithTimeout example_scraper (select_actions ''B'')
       ((browser [Fails 5 ''no such element''])\<lparr>clock := 4000005000\<rparr>)
     = (Inl (BrowserError ''no such element''), (browser [])\<lparr>clock := 4000005005\<rparr>)"
    by (simp add: eval_defs select_actions_def)
  show "processOptions example_scraper [''A'', ''B'']
       (browser [Completes 1000 page_X, Completes 1000 page_X, Completes 1000 page_X,
                 Completes 1000 page_X, Completes 1000 page_X, Fails 5 ''no such element''])
     = (([], None), (browser [])\<lparr>clock := 4000005005\<rparr>)"
    by (simp add: processOptions_def getRacquetInfo_def eval_defs select_actions_def
          harvest_actions_def reopen_actions_def scripts_X specs_script_X
          field_update_keys zero_RacquetSpecs_def)
qed

section \<open>Properties of the top-level extraction\<close>

lemma setupPage_errors:
  "setupPage s url w = (Some e, w1) \<Longrightarrow>
     (\<exists>x. e = NavigationFailed x) \<or> (\<exists>x. e = PageLoadVerificationFailed x) \<or> (\<exists>x. e = UncheckFailed x)"
  by (auto simp: setupPage_def Let_def split: prod.splits sum.splits)

lemma GetOptions_after_enumeration:
  assumes "ctx_Err (ctx s) (clock w) = None" and "setupPage s url w = (None, w0)"
      and "runWithTimeout s options_actions w0 = (Inr vs, w2)"
  shows "GetOptions s url w = processOptions s (strings_of vs) w2"
  using assms by (simp add: GetOptions_def)

lemma GetOptions_error_cause:
  assumes "GetOptions s url w = ((records, Some e), w')"
  shows "records = []
       \<and> ((\<exists>ce. e = InitialContextError ce) \<or> (\<exists>x. e = NavigationFailed x)
            \<or> (\<exists>x. e = PageLoadVerificationFailed x) \<or> (\<exists>x. e = UncheckFailed x)
            \<or> (\<exists>x. e = OptionsError x))"
proof (cases "ctx_Err (ctx s) (clock w)")
  case (Some ce)
  with assms show ?thesis by (auto simp: GetOptions_def)
next
  case None
  obtain se w0 where su: "setupPage s url w = (se, w0)" by (cases "setupPage s url w")
  show ?thesis
  proof (cases se)
    case (Some x)
    with None su assms have "records = []" "e = x" "w' = w0" by (simp_all add: GetOptions_def)
    with su Some setupPage_errors [of s url w x w0] show ?thesis by auto
  next
    case no_setup_error: None
    obtain res w2 where enum: "runWithTimeout s options_actions w0 = (res, w2)"
      by (cases "runWithTimeout s options_actions w0")
    show ?thesis
    proof (cases res)
      case (Inl x)
      with None su no_setup_error enum assms show ?thesis by (auto simp: GetOptions_def)
    next
      case (Inr vs)
      with None su no_setup_error enum
      have "GetOptions s url w = processOptions s (strings_of vs) w2"
        by (simp add: GetOptions_after_enumeration)
      with assms processOptions_error_nil [of s "strings_of vs" w2] show ?thesis by simp
    qed
  qed
qed

text \<open>
  Claim C5, as amended.  \<^verbatim>\<open>GetOptions\<close> is settled step by step.  If the session is over
  at the first check, it returns the error of that check, no record, and the browser
  untouched.  Otherwise, if the navigation fails, it returns that failure as
  \<open>NavigationFailed\<close>, no record, and the browser as the navigation left it; if the
  navigation succeeds and waiting for the page fails, the same with
  \<open>PageLoadVerificationFailed\<close>; and so on for unchecking the box and for listing the
  options.  In each of these cases nothing is run after the failing step, so no option is
  processed.  If all the steps succeed, the result is that of processing the options
  listed, and its error is \<^verbatim>\<open>nil\<close>.  The other way round, an error that is returned is one
  of these five and comes with no record.
\<close>

theorem GetOptions_run_level_error:
  "(ctx_Err (ctx s) (clock w) = Some ce
      \<longrightarrow> GetOptions s url w = (([], Some (InitialContextError ce)), w))
   \<and> (ctx_Err (ctx s) (clock w) = None \<longrightarrow>
        (chromedp_Run (WithTimeout (ctx s) (clock w) (30 * Second)) (navigation_actions url) w
           = (Inl x1, w1)
         \<longrightarrow> GetOptions s url w = (([], Some (NavigationFailed x1)), w1))
      \<and> (chromedp_Run (WithTimeout (ctx s) (clock w) (30 * Second)) (navigation_actions url) w
           = (Inr v1, w1) \<longrightarrow>
           (chromedp_Run (WithTimeout (ctx s) (clock w1) (30 * Second)) page_load_actions w1
              = (Inl x2, w2)
            \<longrightarrow> GetOptions s url w = (([], Some (PageLoadVerificationFailed x2)), w2))
         \<and> (chromedp_Run (WithTimeout (ctx s) (clock w1) (30 * Second)) page_load_actions w1
              = (Inr v2, w2) \<longrightarrow>
              (runWithTimeout s uncheck_actions w2 = (Inl x3, w3)
               \<longrightarrow> GetOptions s url w = (([], Some (UncheckFailed x3)), w3))
            \<and> (runWithTimeout s uncheck_actions w2 = (Inr v3, w3) \<longrightarrow>
                 (runWithTimeout s options_actions w3 = (Inl x4, w4)
                  \<longrightarrow> GetOptions s url w = (([], Some (OptionsError x4)), w4))
               \<and> (runWithTimeout s options_actions w3 = (Inr vs, w4)
                  \<longrightarrow> GetOptions s url w = processOptions s (strings_of vs) w4
                      \<and> snd (fst (GetOptions s url w)) = None)))))
   \<and> (GetOptions s url w = ((records, Some e), w') \<longrightarrow>
        records = []
        \<and> ((\<exists>ce. e = InitialContextError ce) \<or> (\<exists>x. e = NavigationFailed x)
             \<or> (\<exists>x. e = PageLoadVerificationFailed x) \<or> (\<exists>x. e = UncheckFailed x)
             \<or> (\<exists>x. e = OptionsError x)))"
proof (intro conjI impI)
  assume "ctx_Err (ctx s) (clock w) = Some ce"
  then show "GetOptions s url w = (([], Some (InitialContextError ce)), w)"
    by (simp add: GetOptions_def)
next
  assume "ctx_Err (ctx s) (clock w) = None"
    and "chromedp_Run (WithTimeout (ctx s) (clock w) (30 * Second)) (navigation_actions url) w
           = (Inl x1, w1)"
  then show "GetOptions s url w = (([], Some (NavigationFailed x1)), w1)"
    by (simp add: GetOptions_def setupPage_def)
next
  assume "ctx_Err (ctx s) (clock w) = None"
    and "chromedp_Run (WithTimeout (ctx s) (clock w) (30 * Second)) (navigation_actions url) w
           = (Inr v1, w1)"
    and "chromedp_Run (WithTimeout (ctx s) (clock w1) (30 * Second)) page_load_actions w1
              = (Inl x2, w2)"
  then show "GetOptions s url w = (([], Some (PageLoadVerificationFailed x2)), w2)"
    by (simp add: GetOptions_def setupPage_def)
next
  assume "ctx_Err (ctx s) (clock w) = None"
    and "chromedp_Run (WithTimeout (ctx s) (clock w) (30 * Second)) (navigation_actions url) w
           = (Inr v1, w1)"
    and "chromedp_Run (WithTimeout (ctx s) (clock w1) (30 * Second)) page_load_actions w1
              = (Inr v2, w2)"
    and "runWithTimeout s uncheck_actions w2 = (Inl x3, w3)"
  then show "GetOptions s url w = (([], Some (UncheckFailed x3)), w3)"
    by (simp add: GetOptions_def setupPage_def)
next
  assume "ctx_Err (ctx s) (clock w) = None"
    and "chromedp_Run (WithTimeout (ctx s) (clock w) (30 * Second)) (navigation_actions url) w
           = (Inr v1, w1)"
    and "chromedp_Run (WithTimeout (ctx s) (clock w1) (30 * Second)) page_load_actions w1
              = (Inr v2, w2)"
    and "runWithTimeout s uncheck_actions w2 = (Inr v3, w3)"
    and "runWithTimeout s options_actions w3 = (Inl x4, w4)"
  then show "GetOptions s url w = (([], Some (OptionsError x4)), w4)"
    by (simp add: GetOptions_def setupPage_def)
next
  assume a: "ctx_Err (ctx s) (clock w) = None"
    "chromedp_Run (WithTimeout (ctx s) (clock w) (30 * Second)) (navigation_actions url) w
           = (Inr v1, w1)"
    "chromedp_Run (WithTimeout (ctx s) (clock w1) (30 * Second)) page_load_actions w1
              = (Inr v2, w2)"
    "runWithTimeout s uncheck_actions w2 = (Inr v3, w3)"
    "runWithTimeout s options_actions w3 = (Inr vs, w4)"
  then show go: "GetOptions s url w = processOptions s (strings_of vs) w4"
    by (simp add: GetOptions_def setupPage_def)
  show "snd (fst (GetOptions s url w)) = None"
    unfolding go by (rule processOptions_error_nil)
next
  assume "GetOptions s url w = ((records, Some e), w')"
  from GetOptions_error_cause [OF this] show "records = []" by simp
next
  assume "GetOptions s url w = ((records, Some e), w')"
  from GetOptions_error_cause [OF this]
  show "(\<exists>ce. e = InitialContextError ce) \<or> (\<exists>x. e = NavigationFailed x)
             \<or> (\<exists>x. e = PageLoadVerificationFailed x) \<or> (\<exists>x. e = UncheckFailed x)
             \<or> (\<exists>x. e = OptionsError x)" by simp
qed

theorem GetOptions_run_level_error_witness:
  "GetOptions example_scraper ''http://racquets.example''
       (browser [Fails 5 ''net::ERR_NAME_NOT_RESOLVED''])
     = (([], Some (NavigationFailed (BrowserError ''net::ERR_NAME_NOT_RESOLVED''))),
        (browser [])\<lparr>clock := 5\<rparr>)
   \<and> GetOptions example_scraper ''http://racquets.example''
       (browser [Completes 1000 page_X, Fails 7 ''timeout''])
     = (([], Some (PageLoadVerificationFailed (BrowserError ''timeout''))),
        (browser [])\<lparr>clock := 5000001007\<rparr>)
   \<and> GetOptions example_scraper ''http://racquets.example''
       (browser [Completes 1000 page_X, Completes 1000 page_X, Fails 9 ''not visible''])
     = (([], Some (UncheckFailed (BrowserError ''not visible''))),
        (browser [])\<lparr>clock := 5000002009\<rparr>)
   \<and> GetOptions example_scraper ''http://racquets.example''
       (browser [Completes 1000 page_X, Completes 1000 page_X, Completes 1000 page_X,
                 Completes 1000 page_X, Fails 3 ''no dropdown''])
     = (([], Some (OptionsError (BrowserError ''no dropdown''))),
        (browser [])\<lparr>clock := 6000004003\<rparr>)
   \<and> snd (fst (GetOptions example_scraper ''http://racquets.example''
       (browser [Completes 1000 page_X, Completes 1000 page_X, Completes 1000 page_X,
                 Completes 1000 page_X, Completes 1000 page_X, Completes 1000 page_X]))) = None"
proof (intro conjI)
  let ?u = "''http://racquets.example''"
  let ?c = "Completes 1000 page_X"
  have alive: "\<And>rs. ctx_Err (ctx example_scraper) (clock (browser rs)) = None"
    by (simp add: eval_defs)
  have nav: "\<And>rs. chromedp_Run (WithTimeout (ctx example_scraper) (clock (browser (?c # rs))) (30 * Second))
                  (navigation_actions ?u) (browser (?c # rs))
                = (Inr [], (browser rs)\<lparr>clock := 5000001000\<rparr>)"
    by (simp add: navigation_actions_def eval_defs)
  have load: "\<And>rs. chromedp_Run (WithTimeout (ctx example_scraper)
                       (clock ((browser (?c # rs))\<lparr>clock := 5000001000\<rparr>)) (30 * Second))
                  page_load_actions ((browser (?c # rs))\<lparr>clock := 5000001000\<rparr>)
                = (Inr [], (browser rs)\<lparr>clock := 5000002000\<rparr>)"
    by (simp add: page_load_actions_def eval_defs)
  have uncheck: "\<And>rs. runWithTimeout example_scraper uncheck_actions
                    ((browser (?c # ?c # rs))\<lparr>clock := 5000002000\<rparr>)
                = (Inr [], (browser rs)\<lparr>clock := 6000004000\<rparr>)"
    by (simp add: uncheck_actions_def eval_defs scripts_X)

  have nav_fails: "chromedp_Run (WithTimeout (ctx example_scraper)
                       (clock (browser [Fails 5 ''net::ERR_NAME_NOT_RESOLVED''])) (30 * Second))
                  (navigation_actions ?u) (browser [Fails 5 ''net::ERR_NAME_NOT_RESOLVED''])
                = (Inl (BrowserError ''net::ERR_NAME_NOT_RESOLVED''), (browser [])\<lparr>clock := 5\<rparr>)"
    by (simp add: navigation_actions_def eval_defs)
  from GetOptions_run_level_error
         [where s = example_scraper and url = ?u
            and w = "browser [Fails 5 ''net::ERR_NAME_NOT_RESOLVED'']"
            and ?x1.0 = "BrowserError ''net::ERR_NAME_NOT_RESOLVED''"
            and ?w1.0 = "(browser [])\<lparr>clock := 5\<rparr>"]
       alive nav_fails
  show "GetOptions example_scraper ?u (browser [Fails 5 ''net::ERR_NAME_NOT_RESOLVED''])
     = (([], Some (NavigationFailed (BrowserError ''net::ERR_NAME_NOT_RESOLVED''))),
        (browser [])\<lparr>clock := 5\<rparr>)"
    by simp

  have load_fails: "chromedp_Run (WithTimeout (ctx example_scraper)
                       (clock ((browser [Fails 7 ''timeout''])\<lparr>clock := 5000001000\<rparr>)) (30 * Second))
                  page_load_actions ((browser [Fails 7 ''timeout''])\<lparr>clock := 5000001000\<rparr>)
                = (Inl (BrowserError ''timeout''), (browser [])\<lparr>clock := 5000001007\<rparr>)"
    by (simp add: page_load_actions_def eval_defs)
  from GetOptions_run_level_error
         [where s = example_scraper and url = ?u
            and w = "browser [?c, Fails 7 ''timeout'']"
            and ?v1.0 = "[]" and ?w1.0 = "(browser [Fails 7 ''timeout''])\<lparr>clock := 5000001000\<rparr>"
            and ?x2.0 = "BrowserError ''timeout''"
            and ?w2.0 = "(browser [])\<lparr>clock := 5000001007\<rparr>"]
       alive nav [of "[Fails 7 ''timeout'']"] load_fails
  show "GetOptions example_scraper ?u (browser [?c, Fails 7 ''timeout''])
     = (([], Some (PageLoadVerificationFailed (BrowserError ''timeout''))),
        (browser [])\<lparr>clock := 5000001007\<rparr>)"
    by simp

  have uncheck_fails: "runWithTimeout example_scraper uncheck_actions
                    ((browser [Fails 9 ''not visible''])\<lparr>clock := 5000002000\<rparr>)
                = (Inl (BrowserError ''not visible''), (browser [])\<lparr>clock := 5000002009\<rparr>)"
    by (simp add: uncheck_actions_def eval_defs)
  from GetOptions_run_level_error
         [where s = example_scraper and url = ?u
            and w = "browser [?c, ?c, Fails 9 ''not visible'']"
            and ?v1.0 = "[]"
            and ?w1.0 = "(browser [?c, Fails 9 ''not visible''])\<lparr>clock := 5000001000\<rparr>"
            and ?v2.0 = "[]"
            and ?w2.0 = "(browser [Fails 9 ''not visible''])\<lparr>clock := 5000002000\<rparr>"
            and ?x3.0 = "BrowserError ''not visible''"
            and ?w3.0 = "(browser [])\<lparr>clock := 5000002009\<rparr>"]
       alive nav [of "[?c, Fails 9 ''not visible'']"] load [of "[Fails 9 ''not visible'']"]
       uncheck_fails
  show "GetOptions example_scraper ?u (browser [?c, ?c, Fails 9 ''not visible''])
     = (([], Some (UncheckFailed (BrowserError ''not visible''))),
        (browser [])\<lparr>clock := 5000002009\<rparr>)"
    by simp

  have options_fail: "runWithTimeout example_scraper options_actions
                    ((browser [Fails 3 ''no dropdown''])\<lparr>clock := 6000004000\<rparr>)
                = (Inl (BrowserError ''no dropdown''), (browser [])\<lparr>clock := 6000004003\<rparr>)"
    by (simp add: options_actions_def eval_defs)
  from GetOptions_run_level_error
         [where s = example_scraper and url = ?u
            and w = "browser [?c, ?c, ?c, ?c, Fails 3 ''no dropdown'']"
            and ?v1.0 = "[]"
            and ?w1.0 = "(browser [?c, ?c, ?c, Fails 3 ''no dropdown''])\<lparr>clock := 5000001000\<rparr>"
            and ?v2.0 = "[]"
            and ?w2.0 = "(browser [?c, ?c, Fails 3 ''no dropdown''])\<lparr>clock := 5000002000\<rparr>"
            and ?v3.0 = "[]"
            and ?w3.0 = "(browser [Fails 3 ''no dropdown''])\<lparr>clock := 6000004000\<rparr>"
            and ?x4.0 = "BrowserError ''no dropdown''"
            and ?w4.0 = "(browser [])\<lparr>clock := 6000004003\<rparr>"]
       alive nav [of "[?c, ?c, ?c, Fails 3 ''no dropdown'']"]
       load [of "[?c, ?c, Fails 3 ''no dropdown'']"] uncheck [of "[Fails 3 ''no dropdown'']"]
       options_fail
  show "GetOptions example_scraper ?u (browser [?c, ?c, ?c, ?c, Fails 3 ''no dropdown''])
     = (([], Some (OptionsError (BrowserError ''no dropdown''))),
        (browser [])\<lparr>clock := 6000004003\<rparr>)"
    by simp

  have options_ok: "runWithTimeout example_scraper options_actions
                    ((browser [?c, ?c])\<lparr>clock := 6000004000\<rparr>)
                = (Inr [GoStrings [''A'', ''B'']], (browser [])\<lparr>clock := 7000006000\<rparr>)"
    by (simp add: options_actions_def eval_defs scripts_X)
  from GetOptions_run_level_error
         [where s = example_scraper and url = ?u
            and w = "browser [?c, ?c, ?c, ?c, ?c, ?c]"
            and ?v1.0 = "[]"
            and ?w1.0 = "(browser [?c, ?c, ?c, ?c, ?c])\<lparr>clock := 5000001000\<rparr>"
            and ?v2.0 = "[]"
            and ?w2.0 = "(browser [?c, ?c, ?c, ?c])\<lparr>clock := 5000002000\<rparr>"
            and ?v3.0 = "[]"
            and ?w3.0 = "(browser [?c, ?c])\<lparr>clock := 6000004000\<rparr>"
            and vs = "[GoStrings [''A'', ''B'']]"
            and ?w4.0 = "(browser [])\<lparr>clock := 7000006000\<rparr>"]
       alive nav [of "[?c, ?c, ?c, ?c, ?c]"] load [of "[?c, ?c, ?c, ?c]"] uncheck [of "[?c, ?c]"]
       options_ok
  show "snd (fst (GetOptions example_scraper ?u (browser [?c, ?c, ?c, ?c, ?c, ?c]))) = None"
    by blast
qed

text \<open>
  A session whose budget is used up returns the error of the first check although the
  browser would have answered: no step of the setup and no listing has failed, none was
  tried.
\<close>

theorem GetOptions_initial_context_error:
  "GetOptions short_session ''http://racquets.example''
       \<lparr>clock = 100, feed = [Completes 1000 page_X], browserGone = None, released = []\<rparr>
     = (([], Some (InitialContextError DeadlineExceeded)),
        \<lparr>clock = 100, feed = [Completes 1000 page_X], browserGone = None, released = []\<rparr>)"
  by (simp add: GetOptions_def short_session_def ctx_Err_def ctx_end_def)

lemma options_actions_answered:
  assumes fed: "feed w1 = Completes d0 p0 # Completes d p # rest"
      and in_time: "clock w1 + int d0 + 1000000000 + int d
                      < fst (ctx_end (WithTimeout (ctx s) (clock w1) (actionTimeout s)))"
  shows "runWithTimeout s options_actions w1 =
           (Inr [GoStrings (filter (\<lambda>t. t \<noteq> [] \<and> t \<noteq> ''Select'') (map trim (optionslist_li p)))],
            w1\<lparr>feed := rest, clock := clock w1 + int d0 + 1000000000 + int d\<rparr>)"
proof -
  let ?c = "WithTimeout (ctx s) (clock w1) (actionTimeout s)"
  let ?wa = "w1\<lparr>feed := Completes d p # rest, clock := clock w1 + int d0\<rparr>"
  let ?wb = "?wa\<lparr>clock := clock ?wa + 1000000000\<rparr>"
  let ?wc = "?wb\<lparr>feed := rest, clock := clock ?wb + int d\<rparr>"
  let ?opts = "filter (\<lambda>t. t \<noteq> [] \<and> t \<noteq> ''Select'') (map trim (optionslist_li p))"
  from in_time have "clock w1 < fst (ctx_end ?c)" by simp
  also have "\<dots> \<le> fst (ctx_end (ctx s))" by (rule WithTimeout_end)
  finally have alive: "ctx_Err (ctx s) (clock w1) = None" by (simp add: ctx_alive)
  have a: "perform ?c (Click ''.drop_arrow'' ByQuery) w1 = (Inr [], ?wa)"
    using perform_answered [of "Click ''.drop_arrow'' ByQuery" w1 d0 p0 "Completes d p # rest" ?c]
      fed in_time by (simp add: within_def)
  have b: "perform ?c (Sleep (1 * Second)) ?wa = (Inr [], ?wb)"
    using perform_slept [of "Sleep (1 * Second)" 1000000000 ?c ?wa] in_time
    by (simp add: within_def Second_def)
  have c: "perform ?c (Evaluate OptionsScript IntoStrings) ?wb = (Inr [GoStrings ?opts], ?wc)"
    using perform_answered [of "Evaluate OptionsScript IntoStrings" ?wb d p rest ?c] in_time
    by (simp add: within_def options_script_def)
  have "chromedp_Run ?c options_actions w1 = (Inr [GoStrings ?opts], ?wc)"
    by (simp only: options_actions_def chromedp_Run.simps a b c prod.case sum.case append.simps)
  with alive show ?thesis
    by (simp add: runWithTimeout_def Let_def add.assoc)
qed

text \<open>
  Claim C6.  Suppose the setup has gone through and the browser answers the click on the
  dropdown and then the script, on a page \<open>p\<close>, before the deadline of the action and
  that of the session.  Then the listing succeeds, and the options are the texts of the
  entries of \<open>p\<close> in their order, each trimmed, without those that are empty then and
  without \<^verbatim>\<open>Select\<close>; trimming an option again changes nothing; \<^verbatim>\<open>GetOptions\<close> goes on to
  process exactly these options; and when none is left, as with a dropdown that has no
  entry at all, it returns no record and no error, and leaves the browser as the listing
  left it.
\<close>

theorem GetOptions_enumerates_dropdown:
  assumes "ctx_Err (ctx s) (clock w) = None"
      and "setupPage s url w = (None, w1)"
      and "feed w1 = Completes d0 p0 # Completes d p # rest"
      and "clock w1 + int d0 + 1000000000 + int d
             < fst (ctx_end (WithTimeout (ctx s) (clock w1) (actionTimeout s)))"
  shows "runWithTimeout s options_actions w1 =
           (Inr [GoStrings (filter (\<lambda>t. t \<noteq> [] \<and> t \<noteq> ''Select'') (map trim (optionslist_li p)))],
            w1\<lparr>feed := rest, clock := clock w1 + int d0 + 1000000000 + int d\<rparr>)
       \<and> GetOptions s url w =
           processOptions s (filter (\<lambda>t. t \<noteq> [] \<and> t \<noteq> ''Select'') (map trim (optionslist_li p)))
             (w1\<lparr>feed := rest, clock := clock w1 + int d0 + 1000000000 + int d\<rparr>)
       \<and> (\<forall>opt\<in>set (filter (\<lambda>t. t \<noteq> [] \<and> t \<noteq> ''Select'') (map trim (optionslist_li p))).
             trim opt = opt)
       \<and> (filter (\<lambda>t. t \<noteq> [] \<and> t \<noteq> ''Select'') (map trim (optionslist_li p)) = []
            \<longrightarrow> GetOptions s url w
                  = (([], None), w1\<lparr>feed := rest, clock := clock w1 + int d0 + 1000000000 + int d\<rparr>))
       \<and> (optionslist_li p = []
            \<longrightarrow> GetOptions s url w
                  = (([], None), w1\<lparr>feed := rest, clock := clock w1 + int d0 + 1000000000 + int d\<rparr>))"
proof -
  let ?opts = "filter (\<lambda>t. t \<noteq> [] \<and> t \<noteq> ''Select'') (map trim (optionslist_li p))"
  let ?w2 = "w1\<lparr>feed := rest, clock := clock w1 + int d0 + 1000000000 + int d\<rparr>"
  have enum: "runWithTimeout s options_actions w1 = (Inr [GoStrings ?opts], ?w2)"
    using assms(3,4) by (rule options_actions_answered)
  from assms(1,2) enum have go: "GetOptions s url w = processOptions s ?opts ?w2"
    by (simp add: GetOptions_def)
  have trimmed: "\<forall>opt\<in>set ?opts. trim opt = opt" by (auto simp: trim_idem)
  have none: "?opts = [] \<longrightarrow> GetOptions s url w = (([], None), ?w2)"
    using go by (simp add: processOptions_def)
  then have empty: "optionslist_li p = [] \<longrightarrow> GetOptions s url w = (([], None), ?w2)" by simp
  from enum go trimmed none empty show ?thesis by blast
qed

theorem GetOptions_enumerates_dropdown_witness:
  "setupPage example_scraper ''http://racquets.example''
        (browser [Completes 1000 page_X, Completes 1000 page_X, Completes 1000 page_X,
                  Completes 1000 page_X, Completes 1000 page_menu, Completes 1000 page_menu])
     = (None, (browser [Completes 1000 page_menu, Completes 1000 page_menu])\<lparr>clock := 6000004000\<rparr>)
   \<and> optionslist_li page_menu = [''Select'', '' A '', ''  '', [], ''B'']
   \<and> runWithTimeout example_scraper options_actions
        ((browser [Completes 1000 page_menu, Completes 1000 page_menu])\<lparr>clock := 6000004000\<rparr>)
     = (Inr [GoStrings [''A'', ''B'']], (browser [])\<lparr>clock := 7000006000\<rparr>)
   \<and> GetOptions example_scraper ''http://racquets.example''
        (browser [Completes 1000 page_X, Completes 1000 page_X, Completes 1000 page_X,
                  Completes 1000 page_X, Completes 1000 page_menu, Completes 1000 page_menu])
     = processOptions example_scraper [''A'', ''B''] ((browser [])\<lparr>clock := 7000006000\<rparr>)
   \<and> optionslist_li page_empty = []
   \<and> runWithTimeout example_scraper options_actions
        ((browser [Completes 1000 page_empty, Completes 1000 page_empty])\<lparr>clock := 6000004000\<rparr>)
     = (Inr [GoStrings []], (browser [])\<lparr>clock := 7000006000\<rparr>)
   \<and> GetOptions example_scraper ''http://racquets.example''
        (browser [Completes 1000 page_X, Completes 1000 page_X, Completes 1000 page_X,
                  Completes 1000 page_X, Completes 1000 page_empty, Completes 1000 page_empty])
     = (([], None), (browser [])\<lparr>clock := 7000006000\<rparr>)"
proof -
  let ?u = "''http://racquets.example''"
  let ?c = "Completes 1000 page_X"
  have alive: "\<And>rs. ctx_Err (ctx example_scraper) (clock (browser rs)) = None"
    by (simp add: eval_defs)
  have su: "\<And>rs. setupPage example_scraper ?u (browser (?c # ?c # ?c # ?c # rs))
     = (None, (browser rs)\<lparr>clock := 6000004000\<rparr>)"
    by (simp add: setupPage_def navigation_actions_def page_load_actions_def uncheck_actions_def
          eval_defs scripts_X)
  have fed: "\<And>q. feed ((browser [Completes 1000 q, Completes 1000 q])\<lparr>clock := 6000004000\<rparr>)
               = Completes 1000 q # Completes 1000 q # []"
    by (simp add: browser_def)
  have in_time: "\<And>rs. clock ((browser rs)\<lparr>clock := 6000004000\<rparr>) + int 1000 + 1000000000 + int 1000
             < fst (ctx_end (WithTimeout (ctx example_scraper)
                      (clock ((browser rs)\<lparr>clock := 6000004000\<rparr>)) (actionTimeout example_scraper)))"
    by (simp add: eval_defs)
  have menu: "filter (\<lambda>t. t \<noteq> [] \<and> t \<noteq> ''Select'') (map trim (optionslist_li page_menu)) = [''A'', ''B'']"
    by (simp add: page_menu_def trim_def strip.simps js_whitespace_def)
  have final: "\<And>q. ((browser [Completes 1000 q, Completes 1000 q])\<lparr>clock := 6000004000\<rparr>)
                 \<lparr>feed := [], clock := clock ((browser [Completes 1000 q, Completes 1000 q])\<lparr>clock := 6000004000\<rparr>)
                                        + int 1000 + 1000000000 + int 1000\<rparr>
               = (browser [])\<lparr>clock := 7000006000\<rparr>"
    by (simp add: browser_def)
  from GetOptions_enumerates_dropdown
         [OF alive su [of "[Completes 1000 page_menu, Completes 1000 page_menu]"] fed in_time]
  have one: "runWithTimeout example_scraper options_actions
        ((browser [Completes 1000 page_menu, Completes 1000 page_menu])\<lparr>clock := 6000004000\<rparr>)
     = (Inr [GoStrings [''A'', ''B'']], (browser [])\<lparr>clock := 7000006000\<rparr>)
   \<and> GetOptions example_scraper ?u
        (browser [?c, ?c, ?c, ?c, Completes 1000 page_menu, Completes 1000 page_menu])
     = processOptions example_scraper [''A'', ''B''] ((browser [])\<lparr>clock := 7000006000\<rparr>)"
    unfolding menu final by blast
  have empty: "optionslist_li page_empty = []" by (simp add: page_empty_def)
  have none: "filter (\<lambda>t. t \<noteq> [] \<and> t \<noteq> ''Select'') (map trim (optionslist_li page_empty)) = []"
    by (simp add: page_empty_def)
  from GetOptions_enumerates_dropdown
         [OF alive su [of "[Completes 1000 page_empty, Completes 1000 page_empty]"] fed in_time]
  have two: "runWithTimeout example_scraper options_actions
        ((browser [Completes 1000 page_empty, Completes 1000 page_empty])\<lparr>clock := 6000004000\<rparr>)
     = (Inr [GoStrings []], (browser [])\<lparr>clock := 7000006000\<rparr>)
   \<and> GetOptions example_scraper ?u
        (browser [?c, ?c, ?c, ?c, Completes 1000 page_empty, Completes 1000 page_empty])
     = (([], None), (browser [])\<lparr>clock := 7000006000\<rparr>)"
    unfolding none final using empty by blast
  have "optionslist_li page_menu = [''Select'', '' A '', ''  '', [], ''B'']"
    by (simp add: page_menu_def)
  with one two empty su [of "[Completes 1000 page_menu, Completes 1000 page_menu]"]
  show ?thesis by blast
qed

section \<open>Properties of the browser constructor\<close>

text \<open>
  Claim C9.  If the first run, which starts the browser, fails, \<^verbatim>\<open>NewChrome\<close> has called
  the cancel functions of the timeout, the browser and the allocator context, in this
  order, and returns no context and a cancel function that does nothing; \<^verbatim>\<open>main\<close> then
  exits with status 1 and leaves the browser as \<^verbatim>\<open>NewChrome\<close> left it.
\<close>

theorem NewChrome_failed_start:
  assumes "chromedp_Run \<lparr>deadline = clock w + sint (GlobalTimeout (Parse f)), cancelAt = browserGone w\<rparr>
             [StartBrowser, ActionFunc_log] w = (Inl err, w1)"
  shows "NewChrome (Parse f) w =
           ((None, no_op), w1\<lparr>released := released w1 @ [TimeoutCtx, BrowserCtx, AllocCtx]\<rparr>)
       \<and> (\<forall>w'. call (snd (fst (NewChrome (Parse f) w))) w' = w')
       \<and> main f w = (1, w1\<lparr>released := released w1 @ [TimeoutCtx, BrowserCtx, AllocCtx]\<rparr>)"
  using assms by (simp add: NewChrome_def main_def Let_def)

theorem NewChrome_failed_start_witness:
  "chromedp_Run \<lparr>deadline = clock (browser [Fails 3 ''chrome failed to start'']) + sint (GlobalTimeout (Parse no_flags)),
                  cancelAt = browserGone (browser [Fails 3 ''chrome failed to start''])\<rparr>
      [StartBrowser, ActionFunc_log] (browser [Fails 3 ''chrome failed to start''])
     = (Inl (BrowserError ''chrome failed to start''), (browser [])\<lparr>clock := 3\<rparr>)
   \<and> main no_flags (browser [Fails 3 ''chrome failed to start''])
     = (1, (browser [])\<lparr>clock := 3, released := [TimeoutCtx, BrowserCtx, AllocCtx]\<rparr>)"
proof -
  have start: "chromedp_Run \<lparr>deadline = clock (browser [Fails 3 ''chrome failed to start'']) + sint (GlobalTimeout (Parse no_flags)),
                  cancelAt = browserGone (browser [Fails 3 ''chrome failed to start''])\<rparr>
      [StartBrowser, ActionFunc_log] (browser [Fails 3 ''chrome failed to start''])
     = (Inl (BrowserError ''chrome failed to start''), (browser [])\<lparr>clock := 3\<rparr>)"
    by (simp add: no_flags_def Parse_def flag_Var_def eval_defs)
  from NewChrome_failed_start [OF start] start show ?thesis
    by (simp add: browser_def)
qed

end
